theory Spec2Isabelle
  imports Main
begin

section \<open>JavaScript values\<close>

text \<open>
  The transport (\<^verbatim>\<open>class Server\<close>) and the registered tool handler work on untyped
  JavaScript values: whatever \<^verbatim>\<open>JSON.parse\<close> returns, and whatever property
  access makes of it. The datatype below is the JSON tree plus \<^verbatim>\<open>undefined\<close>,
  the value of a missing property. Objects keep their keys in insertion order, as
  \<^verbatim>\<open>JSON.stringify\<close> prints them; a well-formed object has no key twice.
  Numbers are modelled as integers (ids, error codes, pixel coordinates); strings are
  lists of code units below 256.
\<close>

datatype json =
    JUndefined
  | JNull
  | JBool bool
  | JNum int
  | JStr string
  | JArr "json list"
  | JObj "(string \<times> json) list"

text \<open>
  A thrown value is either an instance of \<^verbatim>\<open>Error\<close> (which includes
  \<^verbatim>\<open>TypeError\<close>, \<^verbatim>\<open>SyntaxError\<close> and the repository's
  \<^verbatim>\<open>BrowserError\<close>), with its \<^verbatim>\<open>message\<close> and its optional
  \<^verbatim>\<open>suggestion\<close>, or any other value.
\<close>

datatype thrown =
    ErrorObj string "string option"
  | NonError json

text \<open>
  The result of evaluating an expression or awaiting a promise: a value, an exception
  (a rejected promise, once awaited), or a promise that never settles.
\<close>

datatype 'a outcome = Returns 'a | Throws thrown | Pending

fun and_then :: "'a outcome \<Rightarrow> ('a \<Rightarrow> 'b outcome) \<Rightarrow> 'b outcome" where
  "and_then (Returns x) f = f x"
| "and_then (Throws e) f = Throws e"
| "and_then Pending f = Pending"

subsection \<open>Conversions of the language\<close>

function show_nat :: "nat \<Rightarrow> string" where
  "show_nat n =
     (if n < 10 then [''0123456789'' ! n]
      else show_nat (n div 10) @ [''0123456789'' ! (n mod 10)])"
  by pat_completeness auto
termination
  by (relation "measure (\<lambda>n. n)") auto

declare show_nat.simps [simp del]

definition show_int :: "int \<Rightarrow> string" where
  "show_int i = (if i < 0 then CHR ''-'' # show_nat (nat (- i)) else show_nat (nat i))"

text \<open>\<^verbatim>\<open>Array.prototype.join\<close> on a list of strings.\<close>

fun js_join :: "string \<Rightarrow> string list \<Rightarrow> string" where
  "js_join sep [] = []"
| "js_join sep [x] = x"
| "js_join sep (x # y # ys) = x @ sep @ js_join sep (y # ys)"

text \<open>
  \<^verbatim>\<open>ToString\<close>, as a template literal applies it: an array prints its elements
  joined by commas (\<^verbatim>\<open>null\<close> and \<^verbatim>\<open>undefined\<close> elements as the empty
  string), a plain object prints as \<^verbatim>\<open>[object Object]\<close>.
\<close>

fun js_to_string :: "json \<Rightarrow> string" where
  "js_to_string JUndefined = ''undefined''"
| "js_to_string JNull = ''null''"
| "js_to_string (JBool b) = (if b then ''true'' else ''false'')"
| "js_to_string (JNum n) = show_int n"
| "js_to_string (JStr s) = s"
| "js_to_string (JArr xs) =
     js_join '','' (map (\<lambda>x. if x = JUndefined \<or> x = JNull then [] else js_to_string x) xs)"
| "js_to_string (JObj kvs) = ''[object Object]''"

text \<open>\<^verbatim>\<open>ToBoolean\<close>: what \<^verbatim>\<open>if (v)\<close>, \<^verbatim>\<open>!v\<close> and \<^verbatim>\<open>v || w\<close> test.\<close>

fun truthy :: "json \<Rightarrow> bool" where
  "truthy JUndefined = False"
| "truthy JNull = False"
| "truthy (JBool b) = b"
| "truthy (JNum n) = (n \<noteq> 0)"
| "truthy (JStr s) = (s \<noteq> [])"
| "truthy (JArr xs) = True"
| "truthy (JObj kvs) = True"

definition js_or :: "json \<Rightarrow> json \<Rightarrow> json" where
  "js_or v w = (if truthy v then v else w)"

definition nullish :: "json \<Rightarrow> bool" where
  "nullish v = (v = JUndefined \<or> v = JNull)"

text \<open>
  Property access \<^verbatim>\<open>v.k\<close>. On \<^verbatim>\<open>null\<close> and \<^verbatim>\<open>undefined\<close> it throws a
  \<^verbatim>\<open>TypeError\<close> (the message is the one of V8); on an object it is the own
  property or \<^verbatim>\<open>undefined\<close>; on the other values it is \<^verbatim>\<open>undefined\<close> for
  every property name the sources use (none of them is inherited from a prototype).
\<close>

definition type_error :: "json \<Rightarrow> string \<Rightarrow> thrown" where
  "type_error v k =
     ErrorObj (''Cannot read properties of '' @ js_to_string v @ '' (reading '' @
               [CHR 0x27] @ k @ [CHR 0x27] @ '')'') None"

fun field :: "json \<Rightarrow> string \<Rightarrow> json" where
  "field (JObj kvs) k = (case map_of kvs k of Some v \<Rightarrow> v | None \<Rightarrow> JUndefined)"
| "field _ k = JUndefined"

definition get_prop :: "json \<Rightarrow> string \<Rightarrow> json outcome" where
  "get_prop v k = (if nullish v then Throws (type_error v k) else Returns (field v k))"

text \<open>
  Indexing \<^verbatim>\<open>v[i]\<close> with a constant index: an element of an array, a character
  of a string, the property named by the digits on an object.
\<close>

fun element :: "json \<Rightarrow> nat \<Rightarrow> json" where
  "element (JArr xs) i = (if i < length xs then xs ! i else JUndefined)"
| "element (JStr s) i = (if i < length s then JStr [s ! i] else JUndefined)"
| "element (JObj kvs) i = field (JObj kvs) (show_nat i)"
| "element _ i = JUndefined"

definition get_index :: "json \<Rightarrow> nat \<Rightarrow> json outcome" where
  "get_index v i = (if nullish v then Throws (type_error v (show_nat i)) else Returns (element v i))"

text \<open>Optional chaining \<^verbatim>\<open>v?.k\<close>.\<close>

definition opt_prop :: "json \<Rightarrow> string \<Rightarrow> json" where
  "opt_prop v k = (if nullish v then JUndefined else field v k)"

text \<open>\<^verbatim>\<open>String.prototype.includes\<close>: the pattern occurs as a contiguous substring.\<close>

fun starts_with :: "string \<Rightarrow> string \<Rightarrow> bool" where
  "starts_with s [] = True"
| "starts_with [] (p # ps) = False"
| "starts_with (c # cs) (p # ps) = (c = p \<and> starts_with cs ps)"

fun js_includes :: "string \<Rightarrow> string \<Rightarrow> bool" where
  "js_includes [] pat = (pat = [])"
| "js_includes (c # cs) pat = (starts_with (c # cs) pat \<or> js_includes cs pat)"

subsection \<open>\<^verbatim>\<open>JSON.stringify\<close>\<close>

text \<open>
  The serialiser of the language, on the values above. \<^verbatim>\<open>gap\<close> is the
  indentation unit (empty for \<^verbatim>\<open>JSON.stringify(v)\<close>, two spaces for
  \<^verbatim>\<open>JSON.stringify(v, null, 2)\<close>), \<^verbatim>\<open>ind\<close> the current indentation. A property
  whose value is \<^verbatim>\<open>undefined\<close> is left out of an object; in an array
  \<^verbatim>\<open>undefined\<close> prints as \<^verbatim>\<open>null\<close>.
\<close>

definition json_escape :: "char \<Rightarrow> string" where
  "json_escape c =
     (if c = CHR 0x22 then [CHR 0x5C, CHR 0x22]
      else if c = CHR 0x5C then [CHR 0x5C, CHR 0x5C]
      else if c = CHR 0x08 then [CHR 0x5C, CHR ''b'']
      else if c = CHR 0x09 then [CHR 0x5C, CHR ''t'']
      else if c = CHR 0x0A then [CHR 0x5C, CHR ''n'']
      else if c = CHR 0x0C then [CHR 0x5C, CHR ''f'']
      else if c = CHR 0x0D then [CHR 0x5C, CHR ''r'']
      else if (of_char c :: nat) < 32
        then [CHR 0x5C, CHR ''u'', CHR ''0'', CHR ''0'',
              ''0123456789abcdef'' ! (of_char c div 16),
              ''0123456789abcdef'' ! (of_char c mod 16)]
      else [c])"

definition quote :: "string \<Rightarrow> string" where
  "quote s = CHR 0x22 # concat (map json_escape s) @ [CHR 0x22]"

fun serialize :: "string \<Rightarrow> string \<Rightarrow> json \<Rightarrow> string" where
  "serialize gap ind JUndefined = ''null''"
| "serialize gap ind JNull = ''null''"
| "serialize gap ind (JBool b) = (if b then ''true'' else ''false'')"
| "serialize gap ind (JNum n) = show_int n"
| "serialize gap ind (JStr s) = quote s"
| "serialize gap ind (JArr xs) =
     (let items = map (serialize gap (ind @ gap)) xs in
      if items = [] then ''[]''
      else if gap = [] then ''['' @ js_join '','' items @ '']''
      else ''['' @ [CHR 0x0A] @ ind @ gap @
           js_join ('','' @ [CHR 0x0A] @ ind @ gap) items @ [CHR 0x0A] @ ind @ '']'')"
| "serialize gap ind (JObj kvs) =
     (let members =
            map (\<lambda>(k, v). quote k @ '':'' @ (if gap = [] then [] else '' '') @
                           serialize gap (ind @ gap) v)
                (filter (\<lambda>(k, v). v \<noteq> JUndefined) kvs) in
      if members = [] then ''{}''
      else if gap = [] then ''{'' @ js_join '','' members @ ''}''
      else ''{'' @ [CHR 0x0A] @ ind @ gap @
           js_join ('','' @ [CHR 0x0A] @ ind @ gap) members @ [CHR 0x0A] @ ind @ ''}'')"

definition JSON_stringify :: "json \<Rightarrow> string" where
  "JSON_stringify v = serialize [] [] v"

definition JSON_stringify_2 :: "json \<Rightarrow> string" where
  "JSON_stringify_2 v = serialize ''  '' [] v"

section \<open>The transport: \<^verbatim>\<open>class Server\<close>\<close>

text \<open>
  Modelled from the spec: the type declarations \<^verbatim>\<open>ServerConfig\<close>,
  \<^verbatim>\<open>ServerCapabilities\<close>, \<^verbatim>\<open>CallToolRequest\<close>, \<^verbatim>\<open>ToolResponse\<close> and
  \<^verbatim>\<open>ListToolsResponse\<close> (imported from \<^verbatim>\<open>./types.js\<close>) are not among the
  sources. The records below carry the fields the class reads; the responses of the
  handlers stay untyped values, as they are at run time.
\<close>

record ServerConfig =
  config_name :: string
  config_version :: string

record CallToolRequest =
  params_name :: json
  params_arguments :: json

text \<open>
  The two handler slots hold asynchronous functions. A handler is modelled by what
  awaiting its promise gives: \<open>Returns\<close> when it resolves, \<open>Throws\<close> when it rejects,
  \<open>Pending\<close> when it never settles. \<open>capabilities\<close> is the value of
  \<^verbatim>\<open>this.capabilities.capabilities\<close>.
\<close>

record Server =
  config :: ServerConfig
  capabilities :: json
  listToolsHandler :: "json outcome option"
  callToolHandler :: "(CallToolRequest \<Rightarrow> json outcome) option"

definition new_Server :: "ServerConfig \<Rightarrow> json \<Rightarrow> Server" where
  "new_Server cfg caps =
     \<lparr>config = cfg, capabilities = caps, listToolsHandler = None, callToolHandler = None\<rparr>"

datatype handler =
    ListTools "json outcome"
  | CallTool "CallToolRequest \<Rightarrow> json outcome"

fun setRequestHandler :: "handler \<Rightarrow> Server \<Rightarrow> Server" where
  "setRequestHandler (ListTools h) srv = srv\<lparr>listToolsHandler := Some h\<rparr>"
| "setRequestHandler (CallTool h) srv = srv\<lparr>callToolHandler := Some h\<rparr>"

subsection \<open>The envelopes written to standard output\<close>

definition rpc_result :: "json \<Rightarrow> json \<Rightarrow> json" where
  "rpc_result i r = JObj [(''jsonrpc'', JStr ''2.0''), (''id'', i), (''result'', r)]"

definition rpc_error :: "json \<Rightarrow> string \<Rightarrow> json" where
  "rpc_error i m =
     JObj [(''jsonrpc'', JStr ''2.0''), (''id'', i),
           (''error'', JObj [(''code'', JNum (- 32603)), (''message'', JStr m),
                             (''data'', JObj [(''suggestion'', JStr ''Check input format'')])])]"

definition initialize_result :: "Server \<Rightarrow> json" where
  "initialize_result srv =
     JObj [(''protocolVersion'', JStr ''2024-11-05''),
           (''capabilities'', capabilities srv),
           (''serverInfo'', JObj [(''name'', JStr (config_name (config srv))),
                                  (''version'', JStr (config_version (config srv)))])]"

text \<open>
  The legacy envelope built from a handler's response. Reading \<^verbatim>\<open>response.isError\<close>
  or \<^verbatim>\<open>response.content[0].text\<close> throws when the value read from is
  \<^verbatim>\<open>null\<close> or \<^verbatim>\<open>undefined\<close>; \<^verbatim>\<open>response.content[1]?.text\<close> does not.
\<close>

definition legacy_envelope :: "json \<Rightarrow> json outcome" where
  "legacy_envelope response =
     and_then (get_prop response ''isError'') (\<lambda>isError.
       if truthy isError then
         and_then (get_prop response ''content'') (\<lambda>content.
         and_then (get_index content 0) (\<lambda>block0.
         and_then (get_prop block0 ''text'') (\<lambda>text0.
         and_then (get_index content 1) (\<lambda>block1.
           Returns (JObj [(''type'', JStr ''response''),
                          (''result'', JObj [(''success'', JBool (\<not> truthy isError)),
                                             (''error'', JObj [(''message'', text0),
                                                               (''suggestion'', opt_prop block1 ''text'')])])])))))
       else
         and_then (get_prop response ''content'') (\<lambda>content.
         and_then (get_index content 0) (\<lambda>block0.
         and_then (get_prop block0 ''text'') (\<lambda>text0.
           Returns (JObj [(''type'', JStr ''response''),
                          (''result'', JObj [(''success'', JBool (\<not> truthy isError)),
                                             (''message'', text0)])])))))"

subsection \<open>\<^verbatim>\<open>handleInput\<close>\<close>

text \<open>
  The body of the \<^verbatim>\<open>try\<close> block, after \<^verbatim>\<open>JSON.parse\<close> has returned
  \<open>message\<close>. It returns \<open>Some\<close> envelope when the block reaches a
  \<^verbatim>\<open>console.log\<close>, \<open>None\<close> when it ends without writing, and \<open>Throws\<close> when
  an exception leaves the block.
\<close>

definition handleInput_try :: "Server \<Rightarrow> json \<Rightarrow> json option outcome" where
  "handleInput_try srv message =
     and_then (get_prop message ''method'') (\<lambda>method.
       if method = JStr ''initialize'' then
         and_then (get_prop message ''id'') (\<lambda>i.
           Returns (Some (rpc_result i (initialize_result srv))))
       else if method = JStr ''notifications/initialized'' then
         Returns None
       else if method = JStr ''tools/list'' then
         (case listToolsHandler srv of
            None \<Rightarrow> Throws (ErrorObj ''No list tools handler registered'' None)
          | Some h \<Rightarrow>
              and_then h (\<lambda>response.
              and_then (get_prop message ''id'') (\<lambda>i.
                Returns (Some (rpc_result i response)))))
       else if method = JStr ''tools/call'' then
         (case callToolHandler srv of
            None \<Rightarrow> Throws (ErrorObj ''No call tool handler registered'' None)
          | Some h \<Rightarrow>
              and_then (get_prop message ''params'') (\<lambda>params.
              and_then (get_prop params ''name'') (\<lambda>name.
              and_then (get_prop params ''arguments'') (\<lambda>arguments.
              and_then (h \<lparr>params_name = name, params_arguments = arguments\<rparr>) (\<lambda>response.
              and_then (get_prop message ''id'') (\<lambda>i.
                Returns (Some (rpc_result i response))))))))
       else
         and_then (get_prop message ''command'') (\<lambda>command.
           if truthy command then
             (case callToolHandler srv of
                None \<Rightarrow> Throws (ErrorObj ''No call tool handler registered'' None)
              | Some h \<Rightarrow>
                  and_then (get_prop message ''arguments'') (\<lambda>arguments.
                  and_then (h \<lparr>params_name = command, params_arguments = arguments\<rparr>) (\<lambda>response.
                  and_then (legacy_envelope response) (\<lambda>envelope.
                    Returns (Some envelope)))))
           else Returns None))"

text \<open>
  The \<^verbatim>\<open>catch\<close> block. \<^verbatim>\<open>JSON.parse\<close> is a function of the language, not of
  the repository: it is the parameter \<open>parse\<close>, which gives \<open>Inr\<close> the value or
  \<open>Inl\<close> the message of the \<^verbatim>\<open>SyntaxError\<close> it throws. The block parses the
  line a second time when the line contains the four characters \<^verbatim>\<open>"id"\<close>;
  an exception of that second parse leaves \<^verbatim>\<open>handleInput\<close>.
\<close>

definition error_message :: "thrown \<Rightarrow> string" where
  "error_message e = (case e of ErrorObj m s \<Rightarrow> m | NonError v \<Rightarrow> ''Unknown error'')"

definition JSON_parse :: "(string \<Rightarrow> string + json) \<Rightarrow> string \<Rightarrow> json outcome" where
  "JSON_parse parse input =
     (case parse input of Inl m \<Rightarrow> Throws (ErrorObj m None) | Inr v \<Rightarrow> Returns v)"

definition handleInput_catch ::
  "(string \<Rightarrow> string + json) \<Rightarrow> string \<Rightarrow> thrown \<Rightarrow> json option outcome" where
  \<open>handleInput_catch parse input error =
     and_then (if js_includes input ''"id"''
               then and_then (JSON_parse parse input) (\<lambda>v. get_prop v ''id'')
               else Returns JNull) (\<lambda>i.
       Returns (Some (rpc_error i (error_message error))))\<close>

text \<open>
  \<^verbatim>\<open>handleInput\<close> itself: the lines it writes (the values given to
  \<^verbatim>\<open>console.log(JSON.stringify(...))\<close>) and how its promise ends.
\<close>

definition handleInput ::
  "(string \<Rightarrow> string + json) \<Rightarrow> Server \<Rightarrow> string \<Rightarrow> json list \<times> unit outcome" where
  "handleInput parse srv input =
     (case (case and_then (JSON_parse parse input) (handleInput_try srv) of
              Throws error \<Rightarrow> handleInput_catch parse input error
            | r \<Rightarrow> r) of
        Returns (Some envelope) \<Rightarrow> ([envelope], Returns ())
      | Returns None \<Rightarrow> ([], Returns ())
      | Throws e \<Rightarrow> ([], Throws e)
      | Pending \<Rightarrow> ([], Pending))"

subsection \<open>\<^verbatim>\<open>connect\<close>: the line framer\<close>

text \<open>\<^verbatim>\<open>buffer.split('\n')\<close>: the pieces between the newlines, at least one.\<close>

fun split_newline :: "string \<Rightarrow> string list" where
  "split_newline [] = [[]]"
| "split_newline (c # cs) =
     (if c = CHR 0x0A then [] # split_newline cs
      else (case split_newline cs of [] \<Rightarrow> [[c]] | l # ls \<Rightarrow> (c # l) # ls))"

text \<open>
  \<^verbatim>\<open>String.prototype.trim\<close> removes white space and line terminators at both
  ends; below code unit 256 these are the six ASCII ones and the no-break space.
\<close>

definition js_whitespace :: "char \<Rightarrow> bool" where
  "js_whitespace c =
     (c = CHR 0x09 \<or> c = CHR 0x0A \<or> c = CHR 0x0B \<or> c = CHR 0x0C \<or> c = CHR 0x0D \<or>
      c = CHR 0x20 \<or> c = CHR 0xA0)"

definition js_trim :: "string \<Rightarrow> string" where
  "js_trim s = rev (dropWhile js_whitespace (rev (dropWhile js_whitespace s)))"

text \<open>
  The \<^verbatim>\<open>'data'\<close> callback on the buffer: the new buffer and, in order, the lines
  it hands to \<^verbatim>\<open>handleInput\<close>. \<^verbatim>\<open>lines.pop() || ''\<close> is the last piece.
\<close>

definition on_data :: "string \<Rightarrow> string \<Rightarrow> string \<times> string list" where
  "on_data buffer chunk =
     (let buffer1 = buffer @ chunk in
      if js_includes buffer1 [CHR 0x0A] then
        (let lines = split_newline buffer1;
             buffer2 = (if lines = [] \<or> last lines = [] then [] else last lines);
             lines1 = butlast lines
         in (buffer2, filter (\<lambda>line. js_trim line \<noteq> []) lines1))
      else (buffer1, []))"

text \<open>
  The callback with the calls it makes: \<^verbatim>\<open>handleInput\<close> is started on each
  line in turn and not awaited, so every line is handled whatever became of the
  lines before it.
\<close>

definition connect_data ::
  "(string \<Rightarrow> string + json) \<Rightarrow> Server \<Rightarrow> string \<Rightarrow> string \<Rightarrow>
     string \<times> (json list \<times> unit outcome) list" where
  "connect_data parse srv buffer chunk =
     (case on_data buffer chunk of
        (buffer2, lines) \<Rightarrow> (buffer2, map (handleInput parse srv) lines))"

fun connect_run :: "string \<Rightarrow> string list \<Rightarrow> string \<times> string list" where
  "connect_run buffer [] = (buffer, [])"
| "connect_run buffer (chunk # chunks) =
     (case on_data buffer chunk of
        (buffer2, lines) \<Rightarrow>
          (case connect_run buffer2 chunks of
             (buffer3, later) \<Rightarrow> (buffer3, lines @ later)))"

text \<open>
  The Line Framer as section 4.1 of the specification words it, for comparison with
  \<open>on_data\<close>: while the buffer contains a newline, the prefix up to the first newline
  is one complete line; it and the newline are removed from the buffer; the line is
  emitted unless it is empty or consists of white space only.
\<close>

definition whitespace_only :: "string \<Rightarrow> bool" where
  "whitespace_only line = list_all js_whitespace line"

function framer_spec :: "string \<Rightarrow> string \<times> string list" where
  "framer_spec buffer =
     (if CHR 0x0A \<in> set buffer then
        (let line = takeWhile (\<lambda>c. c \<noteq> CHR 0x0A) buffer;
             rest = tl (dropWhile (\<lambda>c. c \<noteq> CHR 0x0A) buffer)
         in case framer_spec rest of
              (buffer', lines) \<Rightarrow>
                (buffer', if whitespace_only line then lines else line # lines))
      else (buffer, []))"
  by pat_completeness auto
termination
proof (relation "measure length")
  show "wf (measure length)" by simp
next
  fix buffer :: string and line rest
  assume nl: "CHR 0x0A \<in> set buffer"
     and rest: "rest = tl (dropWhile (\<lambda>c. c \<noteq> CHR 0x0A) buffer)"
  from nl have "dropWhile (\<lambda>c. c \<noteq> CHR 0x0A) buffer \<noteq> []"
    by (auto simp add: dropWhile_eq_Nil_conv)
  then have "length (tl (dropWhile (\<lambda>c. c \<noteq> CHR 0x0A) buffer)) <
             length (dropWhile (\<lambda>c. c \<noteq> CHR 0x0A) buffer)"
    by (cases "dropWhile (\<lambda>c. c \<noteq> CHR 0x0A) buffer") simp_all
  also have "\<dots> \<le> length buffer"
    by (rule length_dropWhile_le)
  finally show "(rest, buffer) \<in> measure length"
    using rest by simp
qed

declare framer_spec.simps [simp del]

section \<open>The registered handlers of \<^verbatim>\<open>server.ts\<close>\<close>

text \<open>
  The tool handler delegates to \<^verbatim>\<open>playwrightController\<close>, which drives a browser.
  The controller is a parameter here: each of its asynchronous methods is given by
  the outcome of awaiting it on the arguments the handler passes (which are untyped at
  run time, whatever the casts say). A result has the type the controller's method
  declares; the scroll positions, numbers in the code, are integers here. The text the
  controller logs in debug mode is not modelled.
\<close>

record ScrollPosition =
  pos_x :: int
  pos_y :: int

record ScrollResult =
  before :: ScrollPosition
  after :: ScrollPosition

record Controller =
  ctl_openBrowser :: "json \<Rightarrow> json \<Rightarrow> unit outcome"
  ctl_navigate :: "json \<Rightarrow> unit outcome"
  ctl_type :: "json \<Rightarrow> json \<Rightarrow> unit outcome"
  ctl_click :: "json \<Rightarrow> unit outcome"
  ctl_moveMouse :: "json \<Rightarrow> json \<Rightarrow> unit outcome"
  ctl_scroll :: "json \<Rightarrow> json \<Rightarrow> json \<Rightarrow> ScrollResult outcome"
  ctl_screenshot :: "json \<Rightarrow> unit outcome"
  ctl_getPageSource :: "string outcome"
  ctl_getPageText :: "string outcome"
  ctl_getPageTitle :: "string outcome"
  ctl_getPageUrl :: "string outcome"
  ctl_getScripts :: "string list outcome"
  ctl_getStylesheets :: "string list outcome"
  ctl_getMetaTags :: "json outcome"
  ctl_getLinks :: "json outcome"
  ctl_getImages :: "json outcome"
  ctl_getForms :: "json outcome"
  ctl_getElementContent :: "json \<Rightarrow> json outcome"
  ctl_getElementHierarchy :: "json \<Rightarrow> json \<Rightarrow> json \<Rightarrow> json \<Rightarrow> json outcome"
  ctl_executeJavaScript :: "json \<Rightarrow> json outcome"
  ctl_closeBrowser :: "unit outcome"

subsection \<open>The responses\<close>

text \<open>
  \<^verbatim>\<open>{content: [{type: "text", text: t}]}\<close> and the same with \<^verbatim>\<open>isError: true\<close>.
\<close>

definition tool_text :: "json \<Rightarrow> json" where
  "tool_text t = JObj [(''content'', JArr [JObj [(''type'', JStr ''text''), (''text'', t)]])]"

definition tool_error :: "json \<Rightarrow> json" where
  "tool_error t =
     JObj [(''content'', JArr [JObj [(''type'', JStr ''text''), (''text'', t)]]),
           (''isError'', JBool True)]"

text \<open>
  \<^verbatim>\<open>JSON.stringify(v, null, 2)\<close> as an expression: \<^verbatim>\<open>undefined\<close> when \<open>v\<close>
  is \<^verbatim>\<open>undefined\<close>, the indented text otherwise.
\<close>

definition stringify_2 :: "json \<Rightarrow> json" where
  "stringify_2 v = (if v = JUndefined then JUndefined else JStr (JSON_stringify_2 v))"

definition is_string :: "json \<Rightarrow> bool" where
  "is_string v = (case v of JStr s \<Rightarrow> True | _ \<Rightarrow> False)"

definition is_number :: "json \<Rightarrow> bool" where
  "is_number v = (case v of JNum n \<Rightarrow> True | _ \<Rightarrow> False)"

definition position_json :: "ScrollPosition \<Rightarrow> json" where
  "position_json p = JObj [(''x'', JNum (pos_x p)), (''y'', JNum (pos_y p))]"

subsection \<open>The cases of the \<^verbatim>\<open>switch\<close>\<close>

definition case_openBrowser :: "Controller \<Rightarrow> json \<Rightarrow> json outcome" where
  "case_openBrowser ctl args =
     and_then (get_prop args ''headless'') (\<lambda>headless.
     and_then (get_prop args ''debug'') (\<lambda>debug.
     and_then (ctl_openBrowser ctl headless debug) (\<lambda>_.
       Returns (tool_text (JStr ''Browser opened successfully'')))))"

definition case_navigate :: "Controller \<Rightarrow> json \<Rightarrow> json outcome" where
  "case_navigate ctl args =
     and_then (get_prop args ''url'') (\<lambda>url.
       if \<not> truthy url \<or> \<not> is_string url then
         Returns (tool_error (JStr ''URL is required''))
       else
         and_then (ctl_navigate ctl url) (\<lambda>_.
           Returns (tool_text (JStr ''Navigation successful''))))"

definition case_type :: "Controller \<Rightarrow> json \<Rightarrow> json outcome" where
  "case_type ctl args =
     and_then (get_prop args ''selector'') (\<lambda>selector.
     and_then (get_prop args ''text'') (\<lambda>text.
       if \<not> truthy selector \<or> \<not> truthy text then
         Returns (tool_error (JStr ''Selector and text are required''))
       else
         and_then (ctl_type ctl selector text) (\<lambda>_.
           Returns (tool_text (JStr ''Text entered successfully'')))))"

definition case_click :: "Controller \<Rightarrow> json \<Rightarrow> json outcome" where
  "case_click ctl args =
     and_then (get_prop args ''selector'') (\<lambda>selector.
       if \<not> truthy selector then
         Returns (tool_error (JStr ''Selector is required''))
       else
         and_then (ctl_click ctl selector) (\<lambda>_.
           Returns (tool_text (JStr ''Click successful''))))"

definition case_moveMouse :: "Controller \<Rightarrow> json \<Rightarrow> json outcome" where
  "case_moveMouse ctl args =
     and_then (get_prop args ''x'') (\<lambda>x.
     and_then (get_prop args ''y'') (\<lambda>y.
       if \<not> is_number x \<or> \<not> is_number y then
         Returns (tool_error (JStr ''X and Y coordinates are required''))
       else
         and_then (ctl_moveMouse ctl x y) (\<lambda>_.
           Returns (tool_text (JStr ''Mouse moved successfully'')))))"

definition case_scroll :: "Controller \<Rightarrow> json \<Rightarrow> json outcome" where
  "case_scroll ctl args =
     and_then (get_prop args ''x'') (\<lambda>x.
     and_then (get_prop args ''y'') (\<lambda>y.
       if \<not> is_number x \<or> \<not> is_number y then
         Returns (tool_error (JStr ''X and Y scroll amounts are required''))
       else
         and_then (get_prop args ''smooth'') (\<lambda>smooth.
         and_then (ctl_scroll ctl x y (js_or smooth (JBool False))) (\<lambda>scrollResult.
           Returns (tool_text (stringify_2 (JObj
             [(''message'', JStr ''Page scrolled successfully''),
              (''before'', position_json (before scrollResult)),
              (''after'', position_json (after scrollResult)),
              (''scrolled'', JObj
                 [(''x'', JNum (pos_x (after scrollResult) - pos_x (before scrollResult))),
                  (''y'', JNum (pos_y (after scrollResult) - pos_y (before scrollResult)))])])))))))"

definition case_screenshot :: "Controller \<Rightarrow> json \<Rightarrow> json outcome" where
  "case_screenshot ctl args =
     and_then (get_prop args ''path'') (\<lambda>path.
       if \<not> truthy path then
         Returns (tool_error (JStr ''Path is required''))
       else
         and_then (ctl_screenshot ctl args) (\<lambda>_.
           Returns (tool_text (JStr ''Screenshot taken successfully''))))"

definition case_getPageSource :: "Controller \<Rightarrow> json outcome" where
  "case_getPageSource ctl =
     and_then (ctl_getPageSource ctl) (\<lambda>source. Returns (tool_text (JStr source)))"

definition case_getPageText :: "Controller \<Rightarrow> json outcome" where
  "case_getPageText ctl =
     and_then (ctl_getPageText ctl) (\<lambda>text. Returns (tool_text (JStr text)))"

definition case_getPageTitle :: "Controller \<Rightarrow> json outcome" where
  "case_getPageTitle ctl =
     and_then (ctl_getPageTitle ctl) (\<lambda>title. Returns (tool_text (JStr title)))"

definition case_getPageUrl :: "Controller \<Rightarrow> json outcome" where
  "case_getPageUrl ctl =
     and_then (ctl_getPageUrl ctl) (\<lambda>url. Returns (tool_text (JStr url)))"

definition case_getScripts :: "Controller \<Rightarrow> json outcome" where
  "case_getScripts ctl =
     and_then (ctl_getScripts ctl) (\<lambda>scripts.
       Returns (tool_text (JStr (js_join [CHR 0x0A] scripts))))"

definition case_getStylesheets :: "Controller \<Rightarrow> json outcome" where
  "case_getStylesheets ctl =
     and_then (ctl_getStylesheets ctl) (\<lambda>stylesheets.
       Returns (tool_text (JStr (js_join [CHR 0x0A] stylesheets))))"

definition case_getMetaTags :: "Controller \<Rightarrow> json outcome" where
  "case_getMetaTags ctl =
     and_then (ctl_getMetaTags ctl) (\<lambda>metaTags. Returns (tool_text (stringify_2 metaTags)))"

definition case_getLinks :: "Controller \<Rightarrow> json outcome" where
  "case_getLinks ctl =
     and_then (ctl_getLinks ctl) (\<lambda>links. Returns (tool_text (stringify_2 links)))"

definition case_getImages :: "Controller \<Rightarrow> json outcome" where
  "case_getImages ctl =
     and_then (ctl_getImages ctl) (\<lambda>images. Returns (tool_text (stringify_2 images)))"

definition case_getForms :: "Controller \<Rightarrow> json outcome" where
  "case_getForms ctl =
     and_then (ctl_getForms ctl) (\<lambda>forms. Returns (tool_text (stringify_2 forms)))"

definition case_getElementContent :: "Controller \<Rightarrow> json \<Rightarrow> json outcome" where
  "case_getElementContent ctl args =
     and_then (get_prop args ''selector'') (\<lambda>selector.
       if \<not> truthy selector then
         Returns (tool_error (JStr ''Selector is required''))
       else
         and_then (ctl_getElementContent ctl selector) (\<lambda>content.
           Returns (tool_text (stringify_2 content))))"

definition case_getElementHierarchy :: "Controller \<Rightarrow> json \<Rightarrow> json outcome" where
  "case_getElementHierarchy ctl args =
     and_then (get_prop args ''selector'') (\<lambda>selector.
     and_then (get_prop args ''maxDepth'') (\<lambda>maxDepth.
     and_then (get_prop args ''includeText'') (\<lambda>includeText.
     and_then (get_prop args ''includeAttributes'') (\<lambda>includeAttributes.
     and_then (ctl_getElementHierarchy ctl
                 (js_or selector (JStr ''body'')) (js_or maxDepth (JNum 3))
                 (js_or includeText (JBool False)) (js_or includeAttributes (JBool False)))
       (\<lambda>hierarchy. Returns (tool_text (stringify_2 hierarchy)))))))"

definition case_executeJavaScript :: "Controller \<Rightarrow> json \<Rightarrow> json outcome" where
  "case_executeJavaScript ctl args =
     and_then (get_prop args ''script'') (\<lambda>script.
       if \<not> truthy script \<or> \<not> is_string script then
         Returns (tool_error (JStr ''JavaScript script is required''))
       else
         and_then (ctl_executeJavaScript ctl script) (\<lambda>result.
           Returns (tool_text
             (if result \<noteq> JUndefined then stringify_2 result
              else JStr ''Script executed successfully (no return value)''))))"

text \<open>The second \<^verbatim>\<open>case 'scroll'\<close> of the source; the first one shadows it.\<close>

definition case_scroll_second :: "Controller \<Rightarrow> json \<Rightarrow> json outcome" where
  "case_scroll_second ctl args =
     and_then (get_prop args ''x'') (\<lambda>x.
     and_then (get_prop args ''y'') (\<lambda>y.
       if \<not> is_number x \<or> \<not> is_number y then
         Returns (tool_error (JStr ''X and Y scroll amounts are required''))
       else
         and_then (ctl_scroll ctl x y JUndefined) (\<lambda>_.
           Returns (tool_text (JStr ''Page scrolled successfully'')))))"

definition case_closeBrowser :: "Controller \<Rightarrow> json outcome" where
  "case_closeBrowser ctl =
     and_then (ctl_closeBrowser ctl) (\<lambda>_.
       Returns (tool_text (JStr ''Browser closed successfully'')))"

definition case_default :: "json \<Rightarrow> json outcome" where
  "case_default name = Returns (tool_error (JStr (''Unknown tool: '' @ js_to_string name)))"

subsection \<open>The \<^verbatim>\<open>callTool\<close> handler\<close>

text \<open>
  The \<^verbatim>\<open>try\<close> block: \<^verbatim>\<open>switch (name)\<close> compares with \<^verbatim>\<open>===\<close>, labels
  in the order of the source.
\<close>

definition callTool_try :: "Controller \<Rightarrow> json \<Rightarrow> json \<Rightarrow> json outcome" where
  "callTool_try ctl name args =
     (if name = JStr ''openBrowser'' then case_openBrowser ctl args
      else if name = JStr ''navigate'' then case_navigate ctl args
      else if name = JStr ''type'' then case_type ctl args
      else if name = JStr ''click'' then case_click ctl args
      else if name = JStr ''moveMouse'' then case_moveMouse ctl args
      else if name = JStr ''scroll'' then case_scroll ctl args
      else if name = JStr ''screenshot'' then case_screenshot ctl args
      else if name = JStr ''getPageSource'' then case_getPageSource ctl
      else if name = JStr ''getPageText'' then case_getPageText ctl
      else if name = JStr ''getPageTitle'' then case_getPageTitle ctl
      else if name = JStr ''getPageUrl'' then case_getPageUrl ctl
      else if name = JStr ''getScripts'' then case_getScripts ctl
      else if name = JStr ''getStylesheets'' then case_getStylesheets ctl
      else if name = JStr ''getMetaTags'' then case_getMetaTags ctl
      else if name = JStr ''getLinks'' then case_getLinks ctl
      else if name = JStr ''getImages'' then case_getImages ctl
      else if name = JStr ''getForms'' then case_getForms ctl
      else if name = JStr ''getElementContent'' then case_getElementContent ctl args
      else if name = JStr ''getElementHierarchy'' then case_getElementHierarchy ctl args
      else if name = JStr ''executeJavaScript'' then case_executeJavaScript ctl args
      else if name = JStr ''scroll'' then case_scroll_second ctl args
      else if name = JStr ''closeBrowser'' then case_closeBrowser ctl
      else case_default name)"

definition case_labels :: "string list" where
  "case_labels =
     [''openBrowser'', ''navigate'', ''type'', ''click'', ''moveMouse'', ''scroll'',
      ''screenshot'', ''getPageSource'', ''getPageText'', ''getPageTitle'', ''getPageUrl'',
      ''getScripts'', ''getStylesheets'', ''getMetaTags'', ''getLinks'', ''getImages'',
      ''getForms'', ''getElementContent'', ''getElementHierarchy'', ''executeJavaScript'',
      ''closeBrowser'']"

text \<open>
  The \<^verbatim>\<open>catch (error: any)\<close> block reads \<^verbatim>\<open>error.message\<close> and
  \<^verbatim>\<open>error.suggestion\<close> of whatever was thrown, and tests the suggestion for
  truthiness before printing it.
\<close>

definition thrown_prop :: "thrown \<Rightarrow> string \<Rightarrow> json outcome" where
  "thrown_prop e k =
     (case e of
        ErrorObj m s \<Rightarrow>
          Returns (if k = ''message'' then JStr m
                   else if k = ''suggestion'' then (case s of None \<Rightarrow> JUndefined | Some t \<Rightarrow> JStr t)
                   else JUndefined)
      | NonError v \<Rightarrow> get_prop v k)"

definition callTool_catch :: "thrown \<Rightarrow> json outcome" where
  "callTool_catch error =
     and_then (thrown_prop error ''message'') (\<lambda>message.
     and_then (thrown_prop error ''suggestion'') (\<lambda>suggestion.
       Returns (tool_error (JStr
         (''Error: '' @ js_to_string message @
          (if truthy suggestion
           then [CHR 0x0A] @ ''Suggestion: '' @ js_to_string suggestion
           else []))))))"

text \<open>
  The handler: \<^verbatim>\<open>const { name, arguments: args = {} } = request.params\<close>, then the
  \<^verbatim>\<open>try\<close> block under its \<^verbatim>\<open>catch\<close>.
\<close>

definition callTool :: "Controller \<Rightarrow> CallToolRequest \<Rightarrow> json outcome" where
  "callTool ctl request =
     (let name = params_name request;
          args = (if params_arguments request = JUndefined then JObj []
                  else params_arguments request)
      in case callTool_try ctl name args of
           Throws error \<Rightarrow> callTool_catch error
         | r \<Rightarrow> r)"

text \<open>
  The call the handler makes to the controller, case by case: \<open>operation_throws\<close>
  says that the request reaches the \<^verbatim>\<open>await playwrightController. ...\<close> of its
  case (the label matches, the checks before the call pass, the argument bag can be
  read) and that this call, on the arguments the case passes, throws \<open>e\<close>.
\<close>

definition operation_throws :: "Controller \<Rightarrow> json \<Rightarrow> json \<Rightarrow> thrown \<Rightarrow> bool" where
  "operation_throws ctl name args e =
     (name = JStr ''openBrowser'' \<and> \<not> nullish args \<and>
        ctl_openBrowser ctl (field args ''headless'') (field args ''debug'') = Throws e
      \<or> name = JStr ''navigate'' \<and>
        truthy (field args ''url'') \<and> is_string (field args ''url'') \<and>
        ctl_navigate ctl (field args ''url'') = Throws e
      \<or> name = JStr ''type'' \<and>
        truthy (field args ''selector'') \<and> truthy (field args ''text'') \<and>
        ctl_type ctl (field args ''selector'') (field args ''text'') = Throws e
      \<or> name = JStr ''click'' \<and> truthy (field args ''selector'') \<and>
        ctl_click ctl (field args ''selector'') = Throws e
      \<or> name = JStr ''moveMouse'' \<and>
        is_number (field args ''x'') \<and> is_number (field args ''y'') \<and>
        ctl_moveMouse ctl (field args ''x'') (field args ''y'') = Throws e
      \<or> name = JStr ''scroll'' \<and>
        is_number (field args ''x'') \<and> is_number (field args ''y'') \<and>
        ctl_scroll ctl (field args ''x'') (field args ''y'')
          (js_or (field args ''smooth'') (JBool False)) = Throws e
      \<or> name = JStr ''screenshot'' \<and> truthy (field args ''path'') \<and>
        ctl_screenshot ctl args = Throws e
      \<or> name = JStr ''getPageSource'' \<and> ctl_getPageSource ctl = Throws e
      \<or> name = JStr ''getPageText'' \<and> ctl_getPageText ctl = Throws e
      \<or> name = JStr ''getPageTitle'' \<and> ctl_getPageTitle ctl = Throws e
      \<or> name = JStr ''getPageUrl'' \<and> ctl_getPageUrl ctl = Throws e
      \<or> name = JStr ''getScripts'' \<and> ctl_getScripts ctl = Throws e
      \<or> name = JStr ''getStylesheets'' \<and> ctl_getStylesheets ctl = Throws e
      \<or> name = JStr ''getMetaTags'' \<and> ctl_getMetaTags ctl = Throws e
      \<or> name = JStr ''getLinks'' \<and> ctl_getLinks ctl = Throws e
      \<or> name = JStr ''getImages'' \<and> ctl_getImages ctl = Throws e
      \<or> name = JStr ''getForms'' \<and> ctl_getForms ctl = Throws e
      \<or> name = JStr ''getElementContent'' \<and> truthy (field args ''selector'') \<and>
        ctl_getElementContent ctl (field args ''selector'') = Throws e
      \<or> name = JStr ''getElementHierarchy'' \<and> \<not> nullish args \<and>
        ctl_getElementHierarchy ctl
          (js_or (field args ''selector'') (JStr ''body''))
          (js_or (field args ''maxDepth'') (JNum 3))
          (js_or (field args ''includeText'') (JBool False))
          (js_or (field args ''includeAttributes'') (JBool False)) = Throws e
      \<or> name = JStr ''executeJavaScript'' \<and>
        truthy (field args ''script'') \<and> is_string (field args ''script'') \<and>
        ctl_executeJavaScript ctl (field args ''script'') = Throws e
      \<or> name = JStr ''closeBrowser'' \<and> ctl_closeBrowser ctl = Throws e)"

text \<open>
  The \<^verbatim>\<open>listTools\<close> handler returns \<^verbatim>\<open>Object.values(tools)\<close>; the catalogue
  \<open>tools\<close> (descriptor by name, in insertion order) is a parameter.
\<close>

definition listTools :: "(string \<times> json) list \<Rightarrow> json outcome" where
  "listTools tools = Returns (JObj [(''tools'', JArr (map snd tools))])"

definition playmcp_server :: "Controller \<Rightarrow> (string \<times> json) list \<Rightarrow> Server" where
  "playmcp_server ctl tools =
     setRequestHandler (CallTool (callTool ctl))
       (setRequestHandler (ListTools (listTools tools))
          (new_Server \<lparr>config_name = ''playmcp-browser'', config_version = ''1.0.0''\<rparr>
                      (JObj [(''tools'', JObj tools)])))"

section \<open>Sample inputs\<close>

text \<open>
  The controller as it answers before any browser has been opened: every method that
  needs a page finds \<^verbatim>\<open>isInitialized()\<close> false and throws its
  \<^verbatim>\<open>BrowserError\<close>; \<^verbatim>\<open>openBrowser\<close> and \<^verbatim>\<open>closeBrowser\<close> return.
\<close>

definition closed_controller :: Controller where
  "closed_controller =
     \<lparr>ctl_openBrowser = (\<lambda>headless debug. Returns ()),
      ctl_navigate = (\<lambda>url. Throws (ErrorObj ''Failed to navigate''
         (Some ''Check if the URL is valid and accessible''))),
      ctl_type = (\<lambda>selector text. Throws (ErrorObj ''Failed to type text''
         (Some ''Check if the input element exists and is editable''))),
      ctl_click = (\<lambda>selector. Throws (ErrorObj ''Failed to click''
         (Some (if truthy selector then ''Check if the element exists and is visible''
                else ''Check if mouse position is valid'')))),
      ctl_moveMouse = (\<lambda>x y. Throws (ErrorObj ''Failed to move mouse''
         (Some ''Check if coordinates are within viewport''))),
      ctl_scroll = (\<lambda>x y smooth. Throws (ErrorObj ''Failed to scroll''
         (Some ''Check if scroll values are valid''))),
      ctl_screenshot = (\<lambda>options. Throws (ErrorObj ''Failed to take screenshot''
         (Some ''Check if the path is writable and element exists (if capturing element)''))),
      ctl_getPageSource = Throws (ErrorObj ''Failed to get page source''
         (Some ''Check if the page is loaded'')),
      ctl_getPageText = Throws (ErrorObj ''Failed to get page text''
         (Some ''Check if the page is loaded'')),
      ctl_getPageTitle = Throws (ErrorObj ''Failed to get page title''
         (Some ''Check if the page is loaded'')),
      ctl_getPageUrl = Throws (ErrorObj ''Failed to get page URL''
         (Some ''Check if the page is loaded'')),
      ctl_getScripts = Throws (ErrorObj ''Failed to get scripts''
         (Some ''Check if the page is loaded'')),
      ctl_getStylesheets = Throws (ErrorObj ''Failed to get stylesheets''
         (Some ''Check if the page is loaded'')),
      ctl_getMetaTags = Throws (ErrorObj ''Failed to get meta tags''
         (Some ''Check if the page is loaded'')),
      ctl_getLinks = Throws (ErrorObj ''Failed to get links''
         (Some ''Check if the page is loaded'')),
      ctl_getImages = Throws (ErrorObj ''Failed to get images''
         (Some ''Check if the page is loaded'')),
      ctl_getForms = Throws (ErrorObj ''Failed to get forms''
         (Some ''Check if the page is loaded'')),
      ctl_getElementContent = (\<lambda>selector. Throws (ErrorObj ''Failed to get element content''
         (Some ''Check if the element exists''))),
      ctl_getElementHierarchy = (\<lambda>selector maxDepth includeText includeAttributes.
         Throws (ErrorObj ''Failed to get element hierarchy''
           (Some ''Check if the selector exists''))),
      ctl_executeJavaScript = (\<lambda>script. Throws (ErrorObj ''Failed to execute JavaScript''
         (Some ''Check if the JavaScript syntax is valid''))),
      ctl_closeBrowser = Returns ()\<rparr>"

text \<open>
  \<^verbatim>\<open>JSON.parse\<close> on the lines the examples below use (the messages of the two
  failures are those of V8). No example uses a line outside this table.
\<close>

definition sample_lines :: "(string \<times> (string + json)) list" where
  \<open>sample_lines =
     [(''{"jsonrpc":"2.0","id":1,"method":"initialize","params":{}}'',
         Inr (JObj [(''jsonrpc'', JStr ''2.0''), (''id'', JNum 1),
                    (''method'', JStr ''initialize''), (''params'', JObj [])])),
      (''{"jsonrpc":"2.0","id":1,"method":"notifications/initialized"}'',
         Inr (JObj [(''jsonrpc'', JStr ''2.0''), (''id'', JNum 1),
                    (''method'', JStr ''notifications/initialized'')])),
      (''{"jsonrpc":"2.0","id":2,"method":"tools/list","params":{}}'',
         Inr (JObj [(''jsonrpc'', JStr ''2.0''), (''id'', JNum 2),
                    (''method'', JStr ''tools/list''), (''params'', JObj [])])),
      (''{"jsonrpc":"2.0","id":3,"method":"tools/call","params":{"name":"foo","arguments":{}}}'',
         Inr (JObj [(''jsonrpc'', JStr ''2.0''), (''id'', JNum 3),
                    (''method'', JStr ''tools/call''),
                    (''params'', JObj [(''name'', JStr ''foo''), (''arguments'', JObj [])])])),
      (''{"jsonrpc":"2.0","id":4,"method":"tools/call","params":{"name":"navigate","arguments":{"url":"https://example.com"}}}'',
         Inr (JObj [(''jsonrpc'', JStr ''2.0''), (''id'', JNum 4),
                    (''method'', JStr ''tools/call''),
                    (''params'', JObj [(''name'', JStr ''navigate''),
                       (''arguments'', JObj [(''url'', JStr ''https://example.com'')])])])),
      (''{"command":"navigate","arguments":{"url":"https://example.com"}}'',
         Inr (JObj [(''command'', JStr ''navigate''),
                    (''arguments'', JObj [(''url'', JStr ''https://example.com'')])])),
      (''{"command":""}'', Inr (JObj [(''command'', JStr [])])),
      (''{"jsonrpc":"2.0","id":7,"method":"resources/list"}'',
         Inr (JObj [(''jsonrpc'', JStr ''2.0''), (''id'', JNum 7),
                    (''method'', JStr ''resources/list'')])),
      (''{"jsonrpc":"2.0","id":8,"method":"ping"}'',
         Inr (JObj [(''jsonrpc'', JStr ''2.0''), (''id'', JNum 8), (''method'', JStr ''ping'')])),
      (''{not json'', Inl ''Unexpected token n in JSON at position 1''),
      (''{"jsonrpc":"2.0","id":5,"method":"tools/list"'',
         Inl ''Unexpected end of JSON input'')]\<close>

definition sample_parse :: "string \<Rightarrow> string + json" where
  "sample_parse line =
     (case map_of sample_lines line of
        Some r \<Rightarrow> r
      | None \<Rightarrow> Inl ''Unexpected end of JSON input'')"

section \<open>Properties of \<^verbatim>\<open>handleInput\<close>\<close>

subsection \<open>Auxiliary facts\<close>

lemma get_prop_Returns: "\<not> nullish v \<Longrightarrow> get_prop v k = Returns (field v k)"
  by (simp add: get_prop_def)

lemma method_not_nullish: "field message ''method'' = JStr s \<Longrightarrow> \<not> nullish message"
  by (cases message) (simp_all add: nullish_def)

lemma truthy_not_nullish: "truthy v \<Longrightarrow> \<not> nullish v"
  by (cases v) (simp_all add: nullish_def)

lemma JSON_parse_Inr: "parse input = Inr v \<Longrightarrow> JSON_parse parse input = Returns v"
  by (simp add: JSON_parse_def)

lemma JSON_parse_Inl:
  "parse input = Inl m \<Longrightarrow> JSON_parse parse input = Throws (ErrorObj m None)"
  by (simp add: JSON_parse_def)

lemma and_then_Returns_iff:
  "and_then r f = Returns y \<longleftrightarrow> (\<exists>x. r = Returns x \<and> f x = Returns y)"
  by (cases r) auto

lemma and_then_Throws_iff:
  "and_then r f = Throws e \<longleftrightarrow> r = Throws e \<or> (\<exists>x. r = Returns x \<and> f x = Throws e)"
  by (cases r) auto

text \<open>
  Once the line has parsed to a value other than \<^verbatim>\<open>null\<close>, the second parse of
  the \<^verbatim>\<open>catch\<close> block succeeds as the first did, and \<^verbatim>\<open>handleInput\<close> is
  decided by its \<^verbatim>\<open>try\<close> block.
\<close>

lemma handleInput_parsed:
  assumes "parse input = Inr message" and "\<not> nullish message"
  shows \<open>handleInput parse srv input =
     (case handleInput_try srv message of
        Returns (Some envelope) \<Rightarrow> ([envelope], Returns ())
      | Returns None \<Rightarrow> ([], Returns ())
      | Throws error \<Rightarrow>
          ([rpc_error (if js_includes input ''"id"'' then field message ''id'' else JNull)
                      (error_message error)], Returns ())
      | Pending \<Rightarrow> ([], Pending))\<close>
  using assms
  by (simp add: handleInput_def JSON_parse_Inr handleInput_catch_def get_prop_Returns
      split: outcome.splits option.splits)

text \<open>
  When the line does not parse, the \<^verbatim>\<open>catch\<close> block writes the error envelope
  with a \<^verbatim>\<open>null\<close> id, unless the line contains \<^verbatim>\<open>"id"\<close>: then the block
  parses the line again, and the same \<^verbatim>\<open>SyntaxError\<close> leaves the function.
\<close>

lemma handleInput_unparsed:
  assumes "parse input = Inl m"
  shows \<open>handleInput parse srv input =
     (if js_includes input ''"id"'' then ([], Throws (ErrorObj m None))
      else ([rpc_error JNull m], Returns ()))\<close>
  using assms
  by (simp add: handleInput_def JSON_parse_Inl handleInput_catch_def error_message_def)

lemma try_initialize:
  "field message ''method'' = JStr ''initialize'' \<Longrightarrow>
   handleInput_try srv message =
     Returns (Some (rpc_result (field message ''id'') (initialize_result srv)))"
  using method_not_nullish [of message]
  by (simp add: handleInput_try_def get_prop_Returns)

lemma try_initialized:
  "field message ''method'' = JStr ''notifications/initialized'' \<Longrightarrow>
   handleInput_try srv message = Returns None"
  using method_not_nullish [of message]
  by (simp add: handleInput_try_def get_prop_Returns)

lemma try_tools_list:
  "field message ''method'' = JStr ''tools/list'' \<Longrightarrow>
   handleInput_try srv message =
     (case listToolsHandler srv of
        None \<Rightarrow> Throws (ErrorObj ''No list tools handler registered'' None)
      | Some h \<Rightarrow>
          and_then h (\<lambda>response.
            Returns (Some (rpc_result (field message ''id'') response))))"
  using method_not_nullish [of message]
  by (simp add: handleInput_try_def get_prop_Returns split: option.splits)

lemma try_tools_call:
  "field message ''method'' = JStr ''tools/call'' \<Longrightarrow>
   handleInput_try srv message =
     (case callToolHandler srv of
        None \<Rightarrow> Throws (ErrorObj ''No call tool handler registered'' None)
      | Some h \<Rightarrow>
          and_then (get_prop (field message ''params'') ''name'') (\<lambda>name.
          and_then (get_prop (field message ''params'') ''arguments'') (\<lambda>arguments.
          and_then (h \<lparr>params_name = name, params_arguments = arguments\<rparr>) (\<lambda>response.
            Returns (Some (rpc_result (field message ''id'') response))))))"
  using method_not_nullish [of message]
  by (simp add: handleInput_try_def get_prop_Returns split: option.splits)

lemma try_other:
  "\<not> nullish message \<Longrightarrow>
   field message ''method'' \<notin> {JStr ''initialize'', JStr ''notifications/initialized'',
      JStr ''tools/list'', JStr ''tools/call''} \<Longrightarrow>
   handleInput_try srv message =
     (if truthy (field message ''command'') then
        (case callToolHandler srv of
           None \<Rightarrow> Throws (ErrorObj ''No call tool handler registered'' None)
         | Some h \<Rightarrow>
             and_then (h \<lparr>params_name = field message ''command'',
                          params_arguments = field message ''arguments''\<rparr>) (\<lambda>response.
             and_then (legacy_envelope response) (\<lambda>envelope. Returns (Some envelope))))
      else Returns None)"
  by (simp add: handleInput_try_def get_prop_Returns split: option.splits)

lemma try_request_shape:
  assumes "field message ''method'' \<in>
             {JStr ''initialize'', JStr ''tools/list'', JStr ''tools/call''}"
      and "handleInput_try srv message = Returns e"
  shows "\<exists>result. e = Some (rpc_result (field message ''id'') result)"
proof -
  from assms(1) consider
      (init) "field message ''method'' = JStr ''initialize''"
    | (list) "field message ''method'' = JStr ''tools/list''"
    | (call) "field message ''method'' = JStr ''tools/call''"
    by auto
  then show ?thesis
  proof cases
    case init
    with assms(2) show ?thesis
      by (auto simp add: try_initialize)
  next
    case list
    with assms(2) show ?thesis
      by (auto simp add: try_tools_list and_then_Returns_iff split: option.splits)
  next
    case call
    with assms(2) show ?thesis
      by (auto simp add: try_tools_call and_then_Returns_iff split: option.splits)
  qed
qed

subsection \<open>The sample lines\<close>

lemma parse_initialize:
  \<open>sample_parse ''{"jsonrpc":"2.0","id":1,"method":"initialize","params":{}}'' =
     Inr (JObj [(''jsonrpc'', JStr ''2.0''), (''id'', JNum 1),
                (''method'', JStr ''initialize''), (''params'', JObj [])])\<close>
  by (simp add: sample_parse_def sample_lines_def)

lemma parse_initialized:
  \<open>sample_parse ''{"jsonrpc":"2.0","id":1,"method":"notifications/initialized"}'' =
     Inr (JObj [(''jsonrpc'', JStr ''2.0''), (''id'', JNum 1),
                (''method'', JStr ''notifications/initialized'')])\<close>
  by (simp add: sample_parse_def sample_lines_def)

lemma parse_tools_list:
  \<open>sample_parse ''{"jsonrpc":"2.0","id":2,"method":"tools/list","params":{}}'' =
     Inr (JObj [(''jsonrpc'', JStr ''2.0''), (''id'', JNum 2),
                (''method'', JStr ''tools/list''), (''params'', JObj [])])\<close>
  by (simp add: sample_parse_def sample_lines_def)

lemma parse_call_foo:
  \<open>sample_parse
     ''{"jsonrpc":"2.0","id":3,"method":"tools/call","params":{"name":"foo","arguments":{}}}'' =
     Inr (JObj [(''jsonrpc'', JStr ''2.0''), (''id'', JNum 3),
                (''method'', JStr ''tools/call''),
                (''params'', JObj [(''name'', JStr ''foo''), (''arguments'', JObj [])])])\<close>
  by (simp add: sample_parse_def sample_lines_def)

lemma parse_call_navigate:
  \<open>sample_parse
     ''{"jsonrpc":"2.0","id":4,"method":"tools/call","params":{"name":"navigate","arguments":{"url":"https://example.com"}}}'' =
     Inr (JObj [(''jsonrpc'', JStr ''2.0''), (''id'', JNum 4),
                (''method'', JStr ''tools/call''),
                (''params'', JObj [(''name'', JStr ''navigate''),
                   (''arguments'', JObj [(''url'', JStr ''https://example.com'')])])])\<close>
  by (simp add: sample_parse_def sample_lines_def)

lemma parse_command_navigate:
  \<open>sample_parse ''{"command":"navigate","arguments":{"url":"https://example.com"}}'' =
     Inr (JObj [(''command'', JStr ''navigate''),
                (''arguments'', JObj [(''url'', JStr ''https://example.com'')])])\<close>
  by (simp add: sample_parse_def sample_lines_def)

lemma parse_command_empty:
  \<open>sample_parse ''{"command":""}'' = Inr (JObj [(''command'', JStr [])])\<close>
  by (simp add: sample_parse_def sample_lines_def)

lemma parse_resources_list:
  \<open>sample_parse ''{"jsonrpc":"2.0","id":7,"method":"resources/list"}'' =
     Inr (JObj [(''jsonrpc'', JStr ''2.0''), (''id'', JNum 7),
                (''method'', JStr ''resources/list'')])\<close>
  by (simp add: sample_parse_def sample_lines_def)

lemma parse_ping:
  \<open>sample_parse ''{"jsonrpc":"2.0","id":8,"method":"ping"}'' =
     Inr (JObj [(''jsonrpc'', JStr ''2.0''), (''id'', JNum 8), (''method'', JStr ''ping'')])\<close>
  by (simp add: sample_parse_def sample_lines_def)

lemma parse_not_json:
  \<open>sample_parse ''{not json'' = Inl ''Unexpected token n in JSON at position 1''\<close>
  by (simp add: sample_parse_def sample_lines_def)

lemma parse_truncated:
  \<open>sample_parse ''{"jsonrpc":"2.0","id":5,"method":"tools/list"'' =
     Inl ''Unexpected end of JSON input''\<close>
  by (simp add: sample_parse_def sample_lines_def)

subsection \<open>The handshake\<close>

text \<open>
  Claim C5. Whenever the parsed message has \<^verbatim>\<open>method === "initialize"\<close>,
  \<^verbatim>\<open>handleInput\<close> writes exactly one response envelope: it echoes the id of the
  message, and its result holds the protocol version \<^verbatim>\<open>2024-11-05\<close>, the
  capabilities the server was constructed with, and the name and version of its
  configuration. The two handler slots are arbitrary (\<open>lh\<close>, \<open>ch\<close>, empty or not):
  the answer does not depend on them.
\<close>

theorem initialize_answered:
  assumes "parse input = Inr message"
      and "field message ''method'' = JStr ''initialize''"
  shows "handleInput parse (srv\<lparr>listToolsHandler := lh, callToolHandler := ch\<rparr>) input =
           ([JObj [(''jsonrpc'', JStr ''2.0''), (''id'', field message ''id''),
                   (''result'', JObj [(''protocolVersion'', JStr ''2024-11-05''),
                       (''capabilities'', capabilities srv),
                       (''serverInfo'', JObj [(''name'', JStr (config_name (config srv))),
                                  (''version'', JStr (config_version (config srv)))])])]],
            Returns ())"
proof -
  have nn: "\<not> nullish message"
    using assms(2) by (rule method_not_nullish)
  show ?thesis
    by (simp add: handleInput_parsed [of parse input message, OF assms(1) nn]
        try_initialize [OF assms(2)] rpc_result_def initialize_result_def)
qed

text \<open>
  The handshake on a server that has no handler registered yet.
\<close>

theorem initialize_answered_witness:
  \<open>sample_parse ''{"jsonrpc":"2.0","id":1,"method":"initialize","params":{}}'' =
     Inr (JObj [(''jsonrpc'', JStr ''2.0''), (''id'', JNum 1),
                (''method'', JStr ''initialize''), (''params'', JObj [])]) \<and>
   handleInput sample_parse
     (new_Server \<lparr>config_name = ''playmcp-browser'', config_version = ''1.0.0''\<rparr>
                 (JObj [(''tools'', JObj [])]))
     ''{"jsonrpc":"2.0","id":1,"method":"initialize","params":{}}'' =
     ([JObj [(''jsonrpc'', JStr ''2.0''), (''id'', JNum 1),
             (''result'', JObj [(''protocolVersion'', JStr ''2024-11-05''),
                 (''capabilities'', JObj [(''tools'', JObj [])]),
                 (''serverInfo'', JObj [(''name'', JStr ''playmcp-browser''),
                                        (''version'', JStr ''1.0.0'')])])]],
      Returns ())\<close>
  using initialize_answered
    [where parse = sample_parse
       and input = \<open>''{"jsonrpc":"2.0","id":1,"method":"initialize","params":{}}''\<close>
       and message = \<open>JObj [(''jsonrpc'', JStr ''2.0''), (''id'', JNum 1),
               (''method'', JStr ''initialize''), (''params'', JObj [])]\<close>
       and srv = \<open>new_Server \<lparr>config_name = ''playmcp-browser'', config_version = ''1.0.0''\<rparr>
                    (JObj [(''tools'', JObj [])])\<close>
       and lh = None and ch = None]
  by (simp add: parse_initialize new_Server_def)

subsection \<open>Requests and their ids\<close>

text \<open>
  Claim C1, as amended. Let the line parse to \<open>message\<close>. If its method is
  \<^verbatim>\<open>notifications/initialized\<close>, nothing is written, whether or not the message
  carries an id. If its method is \<^verbatim>\<open>initialize\<close>, \<^verbatim>\<open>tools/list\<close> or
  \<^verbatim>\<open>tools/call\<close> and the handler it needs does not stay pending, exactly one
  envelope is written and the promise of \<^verbatim>\<open>handleInput\<close> resolves: either a
  response envelope carrying the id of the message, or an error envelope whose id is
  the id of the message when the raw line contains the text \<^verbatim>\<open>"id"\<close>, and
  \<^verbatim>\<open>null\<close> otherwise.
\<close>

theorem request_answered_once:
  assumes "parse input = Inr message"
  shows \<open>(field message ''method'' = JStr ''notifications/initialized'' \<longrightarrow>
            handleInput parse srv input = ([], Returns ())) \<and>
         (field message ''method'' \<in> {JStr ''initialize'', JStr ''tools/list'', JStr ''tools/call''} \<and>
          handleInput_try srv message \<noteq> Pending \<longrightarrow>
            (\<exists>envelope. handleInput parse srv input = ([envelope], Returns ()) \<and>
               ((\<exists>result. envelope = rpc_result (field message ''id'') result) \<or>
                (\<exists>m. envelope = rpc_error (if js_includes input ''"id"'' then field message ''id''
                                            else JNull) m))))\<close>
proof (intro conjI impI)
  assume m: "field message ''method'' = JStr ''notifications/initialized''"
  then have nn: "\<not> nullish message"
    by (rule method_not_nullish)
  show "handleInput parse srv input = ([], Returns ())"
    by (simp add: handleInput_parsed [of parse input message, OF assms nn] try_initialized [OF m])
next
  assume a: "field message ''method'' \<in> {JStr ''initialize'', JStr ''tools/list'', JStr ''tools/call''} \<and>
          handleInput_try srv message \<noteq> Pending"
  then have nn: "\<not> nullish message"
    by (auto dest: method_not_nullish)
  note shape = try_request_shape [of message srv]
  show \<open>\<exists>envelope. handleInput parse srv input = ([envelope], Returns ()) \<and>
               ((\<exists>result. envelope = rpc_result (field message ''id'') result) \<or>
                (\<exists>m. envelope = rpc_error (if js_includes input ''"id"'' then field message ''id''
                                            else JNull) m))\<close>
  proof (cases "handleInput_try srv message")
    case (Returns e)
    with a shape obtain result where "e = Some (rpc_result (field message ''id'') result)"
      by blast
    with Returns show ?thesis
      by (auto simp add: handleInput_parsed [of parse input message, OF assms nn])
  next
    case (Throws error)
    then show ?thesis
      by (auto simp add: handleInput_parsed [of parse input message, OF assms nn])
  next
    case Pending
    with a show ?thesis by simp
  qed
qed

text \<open>
  A \<^verbatim>\<open>tools/call\<close> request with id 3 for a tool the handler does not know.
\<close>

lemma callTool_foo:
  "callTool closed_controller \<lparr>params_name = JStr ''foo'', params_arguments = JObj []\<rparr> =
     Returns (tool_error (JStr ''Unknown tool: foo''))"
  by (simp add: callTool_def callTool_try_def case_default_def)

theorem request_answered_once_witness:
  \<open>handleInput_try (playmcp_server closed_controller [])
      (JObj [(''jsonrpc'', JStr ''2.0''), (''id'', JNum 3), (''method'', JStr ''tools/call''),
             (''params'', JObj [(''name'', JStr ''foo''), (''arguments'', JObj [])])]) \<noteq> Pending \<and>
   (\<exists>envelope.
      handleInput sample_parse (playmcp_server closed_controller [])
        ''{"jsonrpc":"2.0","id":3,"method":"tools/call","params":{"name":"foo","arguments":{}}}'' =
        ([envelope], Returns ()) \<and>
      ((\<exists>result. envelope = rpc_result (JNum 3) result) \<or>
       (\<exists>m. envelope = rpc_error (JNum 3) m)))\<close>
proof -
  have settled:
    "handleInput_try (playmcp_server closed_controller [])
      (JObj [(''jsonrpc'', JStr ''2.0''), (''id'', JNum 3), (''method'', JStr ''tools/call''),
             (''params'', JObj [(''name'', JStr ''foo''), (''arguments'', JObj [])])]) \<noteq> Pending"
    by (simp add: try_tools_call playmcp_server_def new_Server_def get_prop_def nullish_def
        callTool_foo)
  show ?thesis
    using settled request_answered_once [where parse = sample_parse and srv = "playmcp_server closed_controller []", OF parse_call_foo]
    by simp
qed

text \<open>
  The claim as first stated fails: this line parses, carries the id 1, and gets no
  envelope at all.
\<close>

theorem initialized_with_id_unanswered:
  \<open>sample_parse ''{"jsonrpc":"2.0","id":1,"method":"notifications/initialized"}'' =
     Inr (JObj [(''jsonrpc'', JStr ''2.0''), (''id'', JNum 1),
                (''method'', JStr ''notifications/initialized'')]) \<and>
   field (JObj [(''jsonrpc'', JStr ''2.0''), (''id'', JNum 1),
                (''method'', JStr ''notifications/initialized'')]) ''id'' = JNum 1 \<and>
   handleInput sample_parse (playmcp_server closed_controller [])
     ''{"jsonrpc":"2.0","id":1,"method":"notifications/initialized"}'' = ([], Returns ())\<close>
  by (simp add: parse_initialized handleInput_parsed [where parse = sample_parse, OF parse_initialized] nullish_def
      try_initialized)

subsection \<open>Lines that do not parse\<close>

text \<open>
  Claim C2 (one error envelope with code -32603 for every line that fails to parse)
  does not hold on the code. On this truncated request, which contains the text
  \<^verbatim>\<open>"id"\<close>, the \<^verbatim>\<open>catch\<close> block parses the line again to recover the id;
  the parse throws again, no envelope is written, and the promise of
  \<^verbatim>\<open>handleInput\<close> rejects with the \<^verbatim>\<open>SyntaxError\<close>. For a line without
  the text \<^verbatim>\<open>"id"\<close> the claim holds: lemma \<open>handleInput_unparsed\<close> gives one
  error envelope with code -32603 and id \<^verbatim>\<open>null\<close>.
\<close>

theorem truncated_line_with_id_rejects:
  \<open>sample_parse ''{"jsonrpc":"2.0","id":5,"method":"tools/list"'' =
     Inl ''Unexpected end of JSON input'' \<and>
   handleInput sample_parse (playmcp_server closed_controller [])
     ''{"jsonrpc":"2.0","id":5,"method":"tools/list"'' =
     ([], Throws (ErrorObj ''Unexpected end of JSON input'' None))\<close>
  by (simp add: parse_truncated handleInput_unparsed [where parse = sample_parse, OF parse_truncated])

text \<open>
  The example of the specification, a line without \<^verbatim>\<open>"id"\<close>, is answered as the
  claim says.
\<close>

lemma not_json_line_answered:
  \<open>handleInput sample_parse srv ''{not json'' =
     ([rpc_error JNull ''Unexpected token n in JSON at position 1''], Returns ())\<close>
  by (simp add: handleInput_unparsed [where parse = sample_parse, OF parse_not_json])

text \<open>
  The framer is not affected: the callback starts \<^verbatim>\<open>handleInput\<close> on every line
  it extracts, so the lines after an unparseable one are handled like any other.
\<close>

lemma connect_data_each:
  "snd (connect_data parse srv buffer chunk) =
     map (handleInput parse srv) (snd (on_data buffer chunk))"
  by (simp add: connect_data_def split: prod.splits)

subsection \<open>Methods the dispatcher does not know\<close>

text \<open>
  Claim C3, as amended. When the line parses to a value other than \<^verbatim>\<open>null\<close>
  whose method is none of \<^verbatim>\<open>initialize\<close>, \<^verbatim>\<open>notifications/initialized\<close>,
  \<^verbatim>\<open>tools/list\<close>, \<^verbatim>\<open>tools/call\<close>, and whose \<^verbatim>\<open>command\<close> is absent or
  falsy, \<^verbatim>\<open>handleInput\<close> writes nothing (no error envelope either) and its
  promise resolves.
\<close>

theorem unrecognised_method_silent:
  assumes "parse input = Inr message"
      and "\<not> nullish message"
      and "field message ''method'' \<notin> {JStr ''initialize'', JStr ''notifications/initialized'',
             JStr ''tools/list'', JStr ''tools/call''}"
      and "\<not> truthy (field message ''command'')"
  shows "handleInput parse srv input = ([], Returns ())"
  by (simp add: handleInput_parsed [of parse input message, OF assms(1,2)]
      try_other [OF assms(2,3)] assms(4))

theorem unrecognised_method_silent_witness:
  \<open>handleInput sample_parse (playmcp_server closed_controller [])
     ''{"jsonrpc":"2.0","id":8,"method":"ping"}'' = ([], Returns ())\<close>
  using unrecognised_method_silent [where parse = sample_parse and srv = "playmcp_server closed_controller []", OF parse_ping]
  by (simp add: nullish_def)

text \<open>
  The claim as first stated fails: a request with an unknown method and an id gets no
  error envelope.
\<close>

theorem resources_list_unanswered:
  \<open>sample_parse ''{"jsonrpc":"2.0","id":7,"method":"resources/list"}'' =
     Inr (JObj [(''jsonrpc'', JStr ''2.0''), (''id'', JNum 7),
                (''method'', JStr ''resources/list'')]) \<and>
   handleInput sample_parse (playmcp_server closed_controller [])
     ''{"jsonrpc":"2.0","id":7,"method":"resources/list"}'' = ([], Returns ())\<close>
  by (simp add: parse_resources_list handleInput_parsed [where parse = sample_parse, OF parse_resources_list] nullish_def
      try_other)

subsection \<open>\<^verbatim>\<open>tools/list\<close>\<close>

text \<open>
  Claim C6, as amended. For a parsed message with method \<^verbatim>\<open>tools/list\<close>: when no
  list handler is registered, exactly one error envelope is written, with code -32603
  and the message \<^verbatim>\<open>No list tools handler registered\<close>; its id is the id of the
  message when the raw line contains \<^verbatim>\<open>"id"\<close>, and \<^verbatim>\<open>null\<close> otherwise; the
  promise of \<^verbatim>\<open>handleInput\<close> resolves. When a list handler is registered and
  resolves, its result is the \<^verbatim>\<open>result\<close> of the response envelope, unchanged.
\<close>

theorem tools_list_dispatch:
  assumes "parse input = Inr message"
      and "field message ''method'' = JStr ''tools/list''"
  shows \<open>(listToolsHandler srv = None \<longrightarrow>
            handleInput parse srv input =
              ([JObj [(''jsonrpc'', JStr ''2.0''),
                      (''id'', if js_includes input ''"id"'' then field message ''id'' else JNull),
                      (''error'', JObj [(''code'', JNum (- 32603)),
                          (''message'', JStr ''No list tools handler registered''),
                          (''data'', JObj [(''suggestion'', JStr ''Check input format'')])])]],
               Returns ())) \<and>
         (listToolsHandler srv = Some (Returns response) \<longrightarrow>
            handleInput parse srv input =
              ([JObj [(''jsonrpc'', JStr ''2.0''), (''id'', field message ''id''),
                      (''result'', response)]],
               Returns ()))\<close>
proof -
  have nn: "\<not> nullish message"
    using assms(2) by (rule method_not_nullish)
  show ?thesis
    by (simp add: handleInput_parsed [of parse input message, OF assms(1) nn]
        try_tools_list [OF assms(2)] rpc_error_def rpc_result_def error_message_def)
qed

theorem tools_list_dispatch_witness:
  \<open>handleInput sample_parse
     (new_Server \<lparr>config_name = ''playmcp-browser'', config_version = ''1.0.0''\<rparr> JNull)
     ''{"jsonrpc":"2.0","id":2,"method":"tools/list","params":{}}'' =
     ([JObj [(''jsonrpc'', JStr ''2.0''), (''id'', JNum 2),
             (''error'', JObj [(''code'', JNum (- 32603)),
                 (''message'', JStr ''No list tools handler registered''),
                 (''data'', JObj [(''suggestion'', JStr ''Check input format'')])])]],
      Returns ()) \<and>
   handleInput sample_parse
     (playmcp_server closed_controller [(''closeBrowser'', JObj [(''name'', JStr ''closeBrowser'')])])
     ''{"jsonrpc":"2.0","id":2,"method":"tools/list","params":{}}'' =
     ([JObj [(''jsonrpc'', JStr ''2.0''), (''id'', JNum 2),
             (''result'', JObj [(''tools'', JArr [JObj [(''name'', JStr ''closeBrowser'')]])])]],
      Returns ())\<close>
  using tools_list_dispatch
    [where parse = sample_parse
       and srv = \<open>new_Server \<lparr>config_name = ''playmcp-browser'', config_version = ''1.0.0''\<rparr> JNull\<close>,
     OF parse_tools_list]
    tools_list_dispatch
    [where parse = sample_parse
       and srv = \<open>playmcp_server closed_controller
                   [(''closeBrowser'', JObj [(''name'', JStr ''closeBrowser'')])]\<close>
       and response = \<open>JObj [(''tools'', JArr [JObj [(''name'', JStr ''closeBrowser'')]])]\<close>,
     OF parse_tools_list]
  by (simp add: new_Server_def playmcp_server_def listTools_def)

text \<open>
  The message the code writes is not the one the claim first stated.
\<close>

theorem missing_list_handler_message:
  \<open>handleInput sample_parse
     (new_Server \<lparr>config_name = ''playmcp-browser'', config_version = ''1.0.0''\<rparr> JNull)
     ''{"jsonrpc":"2.0","id":2,"method":"tools/list","params":{}}'' =
     ([rpc_error (JNum 2) ''No list tools handler registered''], Returns ()) \<and>
   rpc_error (JNum 2) ''No list tools handler registered'' \<noteq>
   rpc_error (JNum 2) ''no list handler registered''\<close>
  by (simp add: handleInput_parsed [where parse = sample_parse, OF parse_tools_list]
      nullish_def try_tools_list new_Server_def error_message_def rpc_error_def)

subsection \<open>The legacy \<^verbatim>\<open>command\<close> path\<close>

lemma legacy_content_first:
  assumes "field response ''content'' = JArr (first_block # blocks)"
      and "\<not> nullish first_block"
  shows "get_prop response ''isError'' = Returns (field response ''isError'')"
    and "get_prop response ''content'' = Returns (JArr (first_block # blocks))"
    and "get_index (JArr (first_block # blocks)) 0 = Returns first_block"
    and "get_index (JArr (first_block # blocks)) (Suc 0) =
           Returns (case blocks of [] \<Rightarrow> JUndefined | second_block # _ \<Rightarrow> second_block)"
    and "get_prop first_block ''text'' = Returns (field first_block ''text'')"
proof -
  have nn: "\<not> nullish response"
    using assms(1) by (cases response) (simp_all add: nullish_def)
  show "get_prop response ''isError'' = Returns (field response ''isError'')"
    by (rule get_prop_Returns [OF nn])
  show "get_prop response ''content'' = Returns (JArr (first_block # blocks))"
    using assms(1) by (simp add: get_prop_Returns [OF nn])
  show "get_index (JArr (first_block # blocks)) 0 = Returns first_block"
    by (simp add: get_index_def nullish_def)
  show "get_index (JArr (first_block # blocks)) (Suc 0) =
           Returns (case blocks of [] \<Rightarrow> JUndefined | second_block # _ \<Rightarrow> second_block)"
    by (simp add: get_index_def nullish_def split: list.splits)
  show "get_prop first_block ''text'' = Returns (field first_block ''text'')"
    by (rule get_prop_Returns [OF assms(2)])
qed

lemma legacy_envelope_ok:
  assumes "\<not> truthy (field response ''isError'')"
      and "field response ''content'' = JArr (first_block # blocks)"
      and "\<not> nullish first_block"
  shows "legacy_envelope response =
           Returns (JObj [(''type'', JStr ''response''),
                          (''result'', JObj [(''success'', JBool True),
                                             (''message'', field first_block ''text'')])])"
  using assms(1)
  by (simp add: legacy_envelope_def legacy_content_first [OF assms(2,3)])

lemma legacy_envelope_error:
  assumes "truthy (field response ''isError'')"
      and "field response ''content'' = JArr (first_block # blocks)"
      and "\<not> nullish first_block"
  shows "legacy_envelope response =
           Returns (JObj [(''type'', JStr ''response''),
                          (''result'', JObj [(''success'', JBool False),
                             (''error'', JObj [(''message'', field first_block ''text''),
                                (''suggestion'',
                                   (case blocks of [] \<Rightarrow> JUndefined
                                    | second_block # _ \<Rightarrow> opt_prop second_block ''text''))])])])"
proof -
  have u: "opt_prop JUndefined ''text'' = JUndefined"
    by (simp add: opt_prop_def nullish_def)
  show ?thesis
    using assms(1)
    by (simp add: legacy_envelope_def legacy_content_first [OF assms(2,3)] u split: list.splits)
qed

text \<open>
  Claim C4, as amended. Let the line parse to a message other than \<^verbatim>\<open>null\<close>
  whose method is none of the four known ones, and let a call handler \<open>h\<close> be
  registered. If \<^verbatim>\<open>command\<close> is falsy (absent, \<^verbatim>\<open>null\<close>, \<^verbatim>\<open>false\<close>,
  \<^verbatim>\<open>0\<close> or the empty string), nothing is written and the handler is not called.
  If \<^verbatim>\<open>command\<close> is truthy, the handler is called with \<^verbatim>\<open>name = command\<close> and
  \<^verbatim>\<open>arguments = message.arguments\<close>; when it resolves to a response whose
  \<^verbatim>\<open>isError\<close> is absent or falsy and whose content has a first block, the one
  line written is the legacy envelope with \<^verbatim>\<open>success: true\<close> and the text of that
  block as \<^verbatim>\<open>message\<close>.
\<close>

theorem legacy_command_dispatch:
  assumes "parse input = Inr message"
      and "\<not> nullish message"
      and "field message ''method'' \<notin> {JStr ''initialize'', JStr ''notifications/initialized'',
             JStr ''tools/list'', JStr ''tools/call''}"
      and "callToolHandler srv = Some h"
  shows "(\<not> truthy (field message ''command'') \<longrightarrow>
            handleInput parse srv input = ([], Returns ())) \<and>
         (truthy (field message ''command'') \<and>
          h \<lparr>params_name = field message ''command'',
             params_arguments = field message ''arguments''\<rparr> = Returns response \<and>
          \<not> truthy (field response ''isError'') \<and>
          field response ''content'' = JArr (first_block # blocks) \<and> \<not> nullish first_block \<longrightarrow>
            handleInput parse srv input =
              ([JObj [(''type'', JStr ''response''),
                      (''result'', JObj [(''success'', JBool True),
                                         (''message'', field first_block ''text'')])]],
               Returns ()))"
  by (simp add: handleInput_parsed [of parse input message, OF assms(1,2)]
      try_other [OF assms(2,3)] assms(4) legacy_envelope_ok)

text \<open>
  The example of the specification: the handler returns
  \<^verbatim>\<open>{content:[{type:"text",text:"Navigation successful"}]}\<close>.
\<close>

theorem legacy_command_dispatch_witness:
  \<open>handleInput sample_parse
     (setRequestHandler
        (CallTool (\<lambda>request. Returns (tool_text (JStr ''Navigation successful''))))
        (new_Server \<lparr>config_name = ''playmcp-browser'', config_version = ''1.0.0''\<rparr> JNull))
     ''{"command":"navigate","arguments":{"url":"https://example.com"}}'' =
     ([JObj [(''type'', JStr ''response''),
             (''result'', JObj [(''success'', JBool True),
                                (''message'', JStr ''Navigation successful'')])]],
      Returns ()) \<and>
   JSON_stringify
     (JObj [(''type'', JStr ''response''),
            (''result'', JObj [(''success'', JBool True),
                               (''message'', JStr ''Navigation successful'')])]) =
     ''{"type":"response","result":{"success":true,"message":"Navigation successful"}}''\<close>
  using legacy_command_dispatch
    [where parse = sample_parse
       and srv = \<open>setRequestHandler
        (CallTool (\<lambda>request. Returns (tool_text (JStr ''Navigation successful''))))
        (new_Server \<lparr>config_name = ''playmcp-browser'', config_version = ''1.0.0''\<rparr> JNull)\<close>
       and h = \<open>\<lambda>request. Returns (tool_text (JStr ''Navigation successful''))\<close>
       and response = \<open>tool_text (JStr ''Navigation successful'')\<close>
       and first_block = \<open>JObj [(''type'', JStr ''text''), (''text'', JStr ''Navigation successful'')]\<close>
       and blocks = \<open>[]\<close>,
     OF parse_command_navigate]
  by (simp add: nullish_def new_Server_def tool_text_def JSON_stringify_def quote_def
      json_escape_def)

text \<open>
  The claim as first stated fails: this message has a \<^verbatim>\<open>command\<close> field and no
  method, the same handler is registered, and nothing is written.
\<close>

theorem empty_command_unanswered:
  \<open>sample_parse ''{"command":""}'' = Inr (JObj [(''command'', JStr [])]) \<and>
   handleInput sample_parse
     (setRequestHandler
        (CallTool (\<lambda>request. Returns (tool_text (JStr ''Navigation successful''))))
        (new_Server \<lparr>config_name = ''playmcp-browser'', config_version = ''1.0.0''\<rparr> JNull))
     ''{"command":""}'' = ([], Returns ())\<close>
  by (simp add: parse_command_empty
      handleInput_parsed [where parse = sample_parse, OF parse_command_empty]
      nullish_def try_other)

section \<open>Properties of the \<^verbatim>\<open>callTool\<close> handler\<close>

subsection \<open>Every response has one content block\<close>

lemma case_openBrowser_shape:
  "case_openBrowser ctl args = Returns r \<Longrightarrow> \<exists>t. r = tool_text t \<or> r = tool_error t"
  by (auto simp add: case_openBrowser_def and_then_Returns_iff)

lemma case_navigate_shape:
  "case_navigate ctl args = Returns r \<Longrightarrow> \<exists>t. r = tool_text t \<or> r = tool_error t"
  by (auto simp add: case_navigate_def and_then_Returns_iff split: if_splits)

lemma case_type_shape:
  "case_type ctl args = Returns r \<Longrightarrow> \<exists>t. r = tool_text t \<or> r = tool_error t"
  by (auto simp add: case_type_def and_then_Returns_iff split: if_splits)

lemma case_click_shape:
  "case_click ctl args = Returns r \<Longrightarrow> \<exists>t. r = tool_text t \<or> r = tool_error t"
  by (auto simp add: case_click_def and_then_Returns_iff split: if_splits)

lemma case_moveMouse_shape:
  "case_moveMouse ctl args = Returns r \<Longrightarrow> \<exists>t. r = tool_text t \<or> r = tool_error t"
  by (auto simp add: case_moveMouse_def and_then_Returns_iff split: if_splits)

lemma case_scroll_shape:
  "case_scroll ctl args = Returns r \<Longrightarrow> \<exists>t. r = tool_text t \<or> r = tool_error t"
  by (auto simp add: case_scroll_def and_then_Returns_iff split: if_splits)

lemma case_screenshot_shape:
  "case_screenshot ctl args = Returns r \<Longrightarrow> \<exists>t. r = tool_text t \<or> r = tool_error t"
  by (auto simp add: case_screenshot_def and_then_Returns_iff split: if_splits)

lemma case_page_shape:
  "case_getPageSource ctl = Returns r \<Longrightarrow> \<exists>t. r = tool_text t \<or> r = tool_error t"
  "case_getPageText ctl = Returns r \<Longrightarrow> \<exists>t. r = tool_text t \<or> r = tool_error t"
  "case_getPageTitle ctl = Returns r \<Longrightarrow> \<exists>t. r = tool_text t \<or> r = tool_error t"
  "case_getPageUrl ctl = Returns r \<Longrightarrow> \<exists>t. r = tool_text t \<or> r = tool_error t"
  "case_getScripts ctl = Returns r \<Longrightarrow> \<exists>t. r = tool_text t \<or> r = tool_error t"
  "case_getStylesheets ctl = Returns r \<Longrightarrow> \<exists>t. r = tool_text t \<or> r = tool_error t"
  "case_getMetaTags ctl = Returns r \<Longrightarrow> \<exists>t. r = tool_text t \<or> r = tool_error t"
  "case_getLinks ctl = Returns r \<Longrightarrow> \<exists>t. r = tool_text t \<or> r = tool_error t"
  "case_getImages ctl = Returns r \<Longrightarrow> \<exists>t. r = tool_text t \<or> r = tool_error t"
  "case_getForms ctl = Returns r \<Longrightarrow> \<exists>t. r = tool_text t \<or> r = tool_error t"
  "case_closeBrowser ctl = Returns r \<Longrightarrow> \<exists>t. r = tool_text t \<or> r = tool_error t"
  by (auto simp add: case_getPageSource_def case_getPageText_def case_getPageTitle_def
      case_getPageUrl_def case_getScripts_def case_getStylesheets_def case_getMetaTags_def
      case_getLinks_def case_getImages_def case_getForms_def case_closeBrowser_def
      and_then_Returns_iff)

lemma case_getElementContent_shape:
  "case_getElementContent ctl args = Returns r \<Longrightarrow> \<exists>t. r = tool_text t \<or> r = tool_error t"
  by (auto simp add: case_getElementContent_def and_then_Returns_iff split: if_splits)

lemma case_getElementHierarchy_shape:
  "case_getElementHierarchy ctl args = Returns r \<Longrightarrow> \<exists>t. r = tool_text t \<or> r = tool_error t"
  by (auto simp add: case_getElementHierarchy_def and_then_Returns_iff)

lemma case_executeJavaScript_shape:
  "case_executeJavaScript ctl args = Returns r \<Longrightarrow> \<exists>t. r = tool_text t \<or> r = tool_error t"
  by (auto simp add: case_executeJavaScript_def and_then_Returns_iff split: if_splits)

lemma case_scroll_second_shape:
  "case_scroll_second ctl args = Returns r \<Longrightarrow> \<exists>t. r = tool_text t \<or> r = tool_error t"
  by (auto simp add: case_scroll_second_def and_then_Returns_iff split: if_splits)

lemma case_default_shape:
  "case_default name = Returns r \<Longrightarrow> \<exists>t. r = tool_text t \<or> r = tool_error t"
  by (auto simp add: case_default_def)

lemmas case_shapes =
  case_openBrowser_shape case_navigate_shape case_type_shape case_click_shape
  case_moveMouse_shape case_scroll_shape case_screenshot_shape case_page_shape
  case_getElementContent_shape case_getElementHierarchy_shape case_executeJavaScript_shape
  case_scroll_second_shape case_default_shape

lemma callTool_try_shape:
  assumes "callTool_try ctl name args = Returns r"
  shows "\<exists>t. r = tool_text t \<or> r = tool_error t"
  using assms unfolding callTool_try_def
  by (simp split: if_splits) (erule case_shapes)+

lemma callTool_catch_shape:
  "callTool_catch e = Returns r \<Longrightarrow> \<exists>t. r = tool_error t"
  by (auto simp add: callTool_catch_def and_then_Returns_iff)

lemma callTool_shape:
  assumes "callTool ctl request = Returns r"
  shows "\<exists>t. r = tool_text t \<or> r = tool_error t"
proof (cases "callTool_try ctl (params_name request)
         (if params_arguments request = JUndefined then JObj [] else params_arguments request)")
  case (Returns x)
  with assms have "x = r" by (simp add: callTool_def)
  with Returns show ?thesis by (auto dest: callTool_try_shape)
next
  case (Throws e)
  with assms have "callTool_catch e = Returns r" by (simp add: callTool_def)
  then show ?thesis by (auto dest: callTool_catch_shape)
next
  case Pending
  with assms show ?thesis by (simp add: callTool_def)
qed

lemma callTool_one_block:
  assumes "callTool ctl request = Returns r"
  shows "\<exists>block. field r ''content'' = JArr [block] \<and> \<not> nullish block"
  using callTool_shape [OF assms]
  by (auto simp add: tool_text_def tool_error_def nullish_def)

lemma callTool_unknown:
  assumes "name \<notin> JStr ` set case_labels"
  shows "callTool ctl \<lparr>params_name = name, params_arguments = arguments\<rparr> =
           Returns (tool_error (JStr (''Unknown tool: '' @ js_to_string name)))"
proof -
  have "callTool_try ctl name args = case_default name" for args
    using assms by (auto simp add: callTool_try_def case_labels_def)
  then show ?thesis
    by (simp add: callTool_def case_default_def)
qed

subsection \<open>Unknown tools\<close>

text \<open>
  Claim C8. For a \<^verbatim>\<open>tools/call\<close> request whose \<^verbatim>\<open>params.name\<close> is none of
  the labels of the \<^verbatim>\<open>switch\<close>, the registered handler resolves to
  \<^verbatim>\<open>{content:[{type:"text",text:"Unknown tool: <name>"}], isError:true}\<close>, whatever
  the controller and the arguments; and the transport writes it as the
  \<^verbatim>\<open>result\<close> of a response envelope with the id of the request, not as an error
  envelope.
\<close>

theorem unknown_tool_result:
  assumes "parse input = Inr message"
      and "field message ''method'' = JStr ''tools/call''"
      and "\<not> nullish (field message ''params'')"
      and "field (field message ''params'') ''name'' \<notin> JStr ` set case_labels"
      and "callToolHandler srv = Some (callTool ctl)"
  shows "callTool ctl \<lparr>params_name = field (field message ''params'') ''name'',
                       params_arguments = field (field message ''params'') ''arguments''\<rparr> =
           Returns (JObj [(''content'', JArr [JObj [(''type'', JStr ''text''),
               (''text'', JStr (''Unknown tool: '' @
                                js_to_string (field (field message ''params'') ''name'')))]]),
             (''isError'', JBool True)]) \<and>
         handleInput parse srv input =
           ([JObj [(''jsonrpc'', JStr ''2.0''), (''id'', field message ''id''),
                   (''result'', JObj [(''content'', JArr [JObj [(''type'', JStr ''text''),
                       (''text'', JStr (''Unknown tool: '' @
                                js_to_string (field (field message ''params'') ''name'')))]]),
                     (''isError'', JBool True)])]],
            Returns ())"
proof -
  have nn: "\<not> nullish message"
    using assms(2) by (rule method_not_nullish)
  show ?thesis
    by (simp add: handleInput_parsed [of parse input message, OF assms(1) nn]
        try_tools_call [OF assms(2)] assms(5) get_prop_Returns [OF assms(3)]
        callTool_unknown [OF assms(4)] rpc_result_def tool_error_def)
qed

theorem unknown_tool_result_witness:
  \<open>handleInput sample_parse (playmcp_server closed_controller [])
     ''{"jsonrpc":"2.0","id":3,"method":"tools/call","params":{"name":"foo","arguments":{}}}'' =
     ([JObj [(''jsonrpc'', JStr ''2.0''), (''id'', JNum 3),
             (''result'', JObj [(''content'', JArr [JObj [(''type'', JStr ''text''),
                 (''text'', JStr ''Unknown tool: foo'')]]),
               (''isError'', JBool True)])]],
      Returns ())\<close>
  using unknown_tool_result
    [where parse = sample_parse and srv = "playmcp_server closed_controller []"
       and ctl = closed_controller, OF parse_call_foo]
  by (simp add: nullish_def case_labels_def playmcp_server_def new_Server_def)

subsection \<open>Failures of the controller\<close>

text \<open>
  What leaves the \<^verbatim>\<open>try\<close> block, case by case: the \<^verbatim>\<open>TypeError\<close> of
  reading a property of an argument bag that is \<^verbatim>\<open>null\<close>, or what the call to
  the controller throws.
\<close>

lemma field_nullish: "nullish v \<Longrightarrow> field v k = JUndefined"
  by (auto simp add: nullish_def)

lemma not_number_undefined: "\<not> is_number JUndefined"
  by (simp add: is_number_def)

lemma type_error_not_NonError:
  "type_error v k \<noteq> NonError w" "NonError w \<noteq> type_error v k"
  by (simp_all add: type_error_def)

lemma case_openBrowser_Throws:
  "case_openBrowser ctl args = Throws e \<longleftrightarrow>
     nullish args \<and> e = type_error args ''headless'' \<or>
     \<not> nullish args \<and>
       ctl_openBrowser ctl (field args ''headless'') (field args ''debug'') = Throws e"
  by (cases "nullish args")
     (auto simp add: case_openBrowser_def get_prop_def and_then_Throws_iff)

lemma case_navigate_Throws:
  "case_navigate ctl args = Throws e \<longleftrightarrow>
     nullish args \<and> e = type_error args ''url'' \<or>
     truthy (field args ''url'') \<and> is_string (field args ''url'') \<and>
       ctl_navigate ctl (field args ''url'') = Throws e"
  by (cases "nullish args")
     (auto simp add: case_navigate_def get_prop_def and_then_Throws_iff field_nullish not_number_undefined)

lemma case_type_Throws:
  "case_type ctl args = Throws e \<longleftrightarrow>
     nullish args \<and> e = type_error args ''selector'' \<or>
     truthy (field args ''selector'') \<and> truthy (field args ''text'') \<and>
       ctl_type ctl (field args ''selector'') (field args ''text'') = Throws e"
  by (cases "nullish args")
     (auto simp add: case_type_def get_prop_def and_then_Throws_iff field_nullish not_number_undefined)

lemma case_click_Throws:
  "case_click ctl args = Throws e \<longleftrightarrow>
     nullish args \<and> e = type_error args ''selector'' \<or>
     truthy (field args ''selector'') \<and> ctl_click ctl (field args ''selector'') = Throws e"
  by (cases "nullish args")
     (auto simp add: case_click_def get_prop_def and_then_Throws_iff field_nullish not_number_undefined)

lemma case_moveMouse_Throws:
  "case_moveMouse ctl args = Throws e \<longleftrightarrow>
     nullish args \<and> e = type_error args ''x'' \<or>
     is_number (field args ''x'') \<and> is_number (field args ''y'') \<and>
       ctl_moveMouse ctl (field args ''x'') (field args ''y'') = Throws e"
  by (cases "nullish args")
     (auto simp add: case_moveMouse_def get_prop_def and_then_Throws_iff field_nullish not_number_undefined)

lemma case_scroll_Throws:
  "case_scroll ctl args = Throws e \<longleftrightarrow>
     nullish args \<and> e = type_error args ''x'' \<or>
     is_number (field args ''x'') \<and> is_number (field args ''y'') \<and>
       ctl_scroll ctl (field args ''x'') (field args ''y'')
         (js_or (field args ''smooth'') (JBool False)) = Throws e"
  by (cases "nullish args")
     (auto simp add: case_scroll_def get_prop_def and_then_Throws_iff field_nullish not_number_undefined)

lemma case_screenshot_Throws:
  "case_screenshot ctl args = Throws e \<longleftrightarrow>
     nullish args \<and> e = type_error args ''path'' \<or>
     truthy (field args ''path'') \<and> ctl_screenshot ctl args = Throws e"
  by (cases "nullish args")
     (auto simp add: case_screenshot_def get_prop_def and_then_Throws_iff field_nullish not_number_undefined)

lemma case_page_Throws:
  "case_getPageSource ctl = Throws e \<longleftrightarrow> ctl_getPageSource ctl = Throws e"
  "case_getPageText ctl = Throws e \<longleftrightarrow> ctl_getPageText ctl = Throws e"
  "case_getPageTitle ctl = Throws e \<longleftrightarrow> ctl_getPageTitle ctl = Throws e"
  "case_getPageUrl ctl = Throws e \<longleftrightarrow> ctl_getPageUrl ctl = Throws e"
  "case_getScripts ctl = Throws e \<longleftrightarrow> ctl_getScripts ctl = Throws e"
  "case_getStylesheets ctl = Throws e \<longleftrightarrow> ctl_getStylesheets ctl = Throws e"
  "case_getMetaTags ctl = Throws e \<longleftrightarrow> ctl_getMetaTags ctl = Throws e"
  "case_getLinks ctl = Throws e \<longleftrightarrow> ctl_getLinks ctl = Throws e"
  "case_getImages ctl = Throws e \<longleftrightarrow> ctl_getImages ctl = Throws e"
  "case_getForms ctl = Throws e \<longleftrightarrow> ctl_getForms ctl = Throws e"
  "case_closeBrowser ctl = Throws e \<longleftrightarrow> ctl_closeBrowser ctl = Throws e"
  by (auto simp add: case_getPageSource_def case_getPageText_def case_getPageTitle_def
      case_getPageUrl_def case_getScripts_def case_getStylesheets_def case_getMetaTags_def
      case_getLinks_def case_getImages_def case_getForms_def case_closeBrowser_def
      and_then_Throws_iff)

lemma case_getElementContent_Throws:
  "case_getElementContent ctl args = Throws e \<longleftrightarrow>
     nullish args \<and> e = type_error args ''selector'' \<or>
     truthy (field args ''selector'') \<and>
       ctl_getElementContent ctl (field args ''selector'') = Throws e"
  by (cases "nullish args")
     (auto simp add: case_getElementContent_def get_prop_def and_then_Throws_iff field_nullish not_number_undefined)

lemma case_getElementHierarchy_Throws:
  "case_getElementHierarchy ctl args = Throws e \<longleftrightarrow>
     nullish args \<and> e = type_error args ''selector'' \<or>
     \<not> nullish args \<and>
       ctl_getElementHierarchy ctl
         (js_or (field args ''selector'') (JStr ''body''))
         (js_or (field args ''maxDepth'') (JNum 3))
         (js_or (field args ''includeText'') (JBool False))
         (js_or (field args ''includeAttributes'') (JBool False)) = Throws e"
  by (cases "nullish args")
     (auto simp add: case_getElementHierarchy_def get_prop_def and_then_Throws_iff)

lemma case_executeJavaScript_Throws:
  "case_executeJavaScript ctl args = Throws e \<longleftrightarrow>
     nullish args \<and> e = type_error args ''script'' \<or>
     truthy (field args ''script'') \<and> is_string (field args ''script'') \<and>
       ctl_executeJavaScript ctl (field args ''script'') = Throws e"
  by (cases "nullish args")
     (auto simp add: case_executeJavaScript_def get_prop_def and_then_Throws_iff field_nullish not_number_undefined)

lemmas case_Throws =
  case_openBrowser_Throws case_navigate_Throws case_type_Throws case_click_Throws
  case_moveMouse_Throws case_scroll_Throws case_screenshot_Throws case_page_Throws
  case_getElementContent_Throws case_getElementHierarchy_Throws case_executeJavaScript_Throws

lemma operation_throws_try:
  assumes "operation_throws ctl name args e"
  shows "callTool_try ctl name args = Throws e"
  using assms unfolding operation_throws_def
  by (elim disjE conjE) (simp_all add: callTool_try_def case_Throws)

lemma try_NonError_operation:
  assumes "callTool_try ctl name args = Throws (NonError v)"
  shows "operation_throws ctl name args (NonError v)"
  using assms unfolding callTool_try_def operation_throws_def
  by (simp add: case_Throws case_default_def type_error_not_NonError split: if_splits)

lemma callTool_catch_ErrorObj:
  "callTool_catch (ErrorObj m s) =
     Returns (tool_error (JStr (''Error: '' @ m @
        (case s of None \<Rightarrow> []
         | Some t \<Rightarrow> if t = [] then [] else CHR 0x0A # ''Suggestion: '' @ t))))"
  by (cases s) (simp_all add: callTool_catch_def thrown_prop_def)

lemma callTool_catch_Throws:
  "callTool_catch e = Throws e' \<Longrightarrow> e = NonError JNull \<or> e = NonError JUndefined"
  by (cases e)
     (auto simp add: callTool_catch_def thrown_prop_def and_then_Throws_iff get_prop_def
       nullish_def split: if_splits)

lemma callTool_rejects_only_nullish:
  assumes "callTool ctl request = Throws e"
  shows "callTool_try ctl (params_name request)
           (if params_arguments request = JUndefined then JObj []
            else params_arguments request) \<in> {Throws (NonError JNull), Throws (NonError JUndefined)}"
  using assms
  by (auto simp add: callTool_def split: outcome.splits dest: callTool_catch_Throws)

text \<open>
  Claim C9. The registered \<^verbatim>\<open>callTool\<close> handler never rejects on a failure of
  the controller. For every tool name and argument bag: if the controller operation
  that the request invokes (any of the 21 cases of the \<^verbatim>\<open>switch\<close>) throws an
  error with message \<open>m\<close> and optional suggestion \<open>s\<close>, the handler resolves to
  \<^verbatim>\<open>{content:[{type:"text", text}], isError:true}\<close> whose text is
  \<^verbatim>\<open>Error: m\<close>, followed by a newline and \<^verbatim>\<open>Suggestion: s\<close> when \<open>s\<close> is
  present. A suggestion that is present is a non-empty string, as in every
  \<^verbatim>\<open>BrowserError\<close> the controller constructs. And whenever what the operation
  throws is not \<^verbatim>\<open>null\<close> or \<^verbatim>\<open>undefined\<close> itself (no \<^verbatim>\<open>throw\<close> of
  the controller is), the promise of the handler does not reject. Here \<open>args\<close> is
  the argument bag after the default \<^verbatim>\<open>arguments: args = {}\<close>.
\<close>

theorem callTool_error_content:
  assumes "args = (if params_arguments request = JUndefined then JObj []
                   else params_arguments request)"
  shows "(operation_throws ctl (params_name request) args (ErrorObj m s) \<and> s \<noteq> Some [] \<longrightarrow>
            callTool ctl request =
              Returns (JObj [(''content'', JArr [JObj [(''type'', JStr ''text''),
                  (''text'', JStr (''Error: '' @ m @
                     (case s of None \<Rightarrow> [] | Some t \<Rightarrow> CHR 0x0A # ''Suggestion: '' @ t)))]]),
                (''isError'', JBool True)])) \<and>
         (\<not> operation_throws ctl (params_name request) args (NonError JNull) \<and>
          \<not> operation_throws ctl (params_name request) args (NonError JUndefined) \<longrightarrow>
            callTool ctl request \<noteq> Throws e)"
proof (intro conjI impI)
  assume a: "operation_throws ctl (params_name request) args (ErrorObj m s) \<and> s \<noteq> Some []"
  then have "callTool_try ctl (params_name request) args = Throws (ErrorObj m s)"
    by (simp add: operation_throws_try)
  with a show "callTool ctl request =
              Returns (JObj [(''content'', JArr [JObj [(''type'', JStr ''text''),
                  (''text'', JStr (''Error: '' @ m @
                     (case s of None \<Rightarrow> [] | Some t \<Rightarrow> CHR 0x0A # ''Suggestion: '' @ t)))]]),
                (''isError'', JBool True)])"
    unfolding assms
    by (cases s) (simp_all add: callTool_def callTool_catch_ErrorObj tool_error_def)
next
  assume n: "\<not> operation_throws ctl (params_name request) args (NonError JNull) \<and>
          \<not> operation_throws ctl (params_name request) args (NonError JUndefined)"
  show "callTool ctl request \<noteq> Throws e"
  proof
    assume "callTool ctl request = Throws e"
    then have "callTool_try ctl (params_name request) args
                 \<in> {Throws (NonError JNull), Throws (NonError JUndefined)}"
      unfolding assms by (rule callTool_rejects_only_nullish)
    then have "operation_throws ctl (params_name request) args (NonError JNull) \<or>
               operation_throws ctl (params_name request) args (NonError JUndefined)"
      by (auto dest: try_NonError_operation)
    with n show False by simp
  qed
qed

text \<open>
  \<^verbatim>\<open>navigate\<close> before a browser has been opened.
\<close>

theorem callTool_error_content_witness:
  \<open>operation_throws closed_controller (JStr ''navigate'')
      (JObj [(''url'', JStr ''https://example.com'')])
      (ErrorObj ''Failed to navigate'' (Some ''Check if the URL is valid and accessible'')) \<and>
   callTool closed_controller
     \<lparr>params_name = JStr ''navigate'',
      params_arguments = JObj [(''url'', JStr ''https://example.com'')]\<rparr> =
     Returns (JObj [(''content'', JArr [JObj [(''type'', JStr ''text''),
         (''text'', JStr (''Error: Failed to navigate'' @ [CHR 0x0A] @
                          ''Suggestion: Check if the URL is valid and accessible''))]]),
       (''isError'', JBool True)]) \<and>
   callTool closed_controller
     \<lparr>params_name = JStr ''navigate'',
      params_arguments = JObj [(''url'', JStr ''https://example.com'')]\<rparr> \<noteq>
     Throws (NonError JNull)\<close>
  using callTool_error_content
      [where ctl = closed_controller
         and request = \<open>\<lparr>params_name = JStr ''navigate'',
               params_arguments = JObj [(''url'', JStr ''https://example.com'')]\<rparr>\<close>
         and args = \<open>JObj [(''url'', JStr ''https://example.com'')]\<close>
         and m = \<open>''Failed to navigate''\<close>
         and s = \<open>Some ''Check if the URL is valid and accessible''\<close>
         and e = \<open>NonError JNull\<close>]
  by (simp add: operation_throws_def is_string_def closed_controller_def)

subsection \<open>Tool errors on the legacy path\<close>

text \<open>
  Claim C10. On the legacy path (a truthy \<^verbatim>\<open>command\<close>, a registered call handler
  that resolves), when the response has a truthy \<^verbatim>\<open>isError\<close> and its content has
  a first block, the one line written is the legacy envelope with
  \<^verbatim>\<open>success: false\<close> and \<^verbatim>\<open>error: {message, suggestion}\<close>: the message is the
  text of the first block, the suggestion the text of the second block if there is
  one. When the content has exactly one block the suggestion is \<^verbatim>\<open>undefined\<close>, and
  the serialised line has no \<^verbatim>\<open>suggestion\<close> key. Every response of the registered
  \<^verbatim>\<open>callTool\<close> handler has exactly one block.
\<close>

theorem legacy_error_envelope:
  assumes "parse input = Inr message"
      and "\<not> nullish message"
      and "field message ''method'' \<notin> {JStr ''initialize'', JStr ''notifications/initialized'',
             JStr ''tools/list'', JStr ''tools/call''}"
      and "truthy (field message ''command'')"
      and "callToolHandler srv = Some h"
      and "h \<lparr>params_name = field message ''command'',
              params_arguments = field message ''arguments''\<rparr> = Returns response"
      and "truthy (field response ''isError'')"
      and "field response ''content'' = JArr (first_block # blocks)"
      and "\<not> nullish first_block"
  shows \<open>handleInput parse srv input =
           ([JObj [(''type'', JStr ''response''),
                   (''result'', JObj [(''success'', JBool False),
                      (''error'', JObj [(''message'', field first_block ''text''),
                         (''suggestion'',
                            (case blocks of [] \<Rightarrow> JUndefined
                             | second_block # _ \<Rightarrow> opt_prop second_block ''text''))])])]],
            Returns ()) \<and>
         (blocks = [] \<and> field first_block ''text'' = JStr t \<longrightarrow>
            map JSON_stringify (fst (handleInput parse srv input)) =
              [''{"type":"response","result":{"success":false,"error":{"message":'' @ quote t @
               ''}}}'']) \<and>
         (\<forall>ctl request r. callTool ctl request = Returns r \<longrightarrow>
            (\<exists>block. field r ''content'' = JArr [block] \<and> \<not> nullish block))\<close>
proof -
  have out: \<open>handleInput parse srv input =
           ([JObj [(''type'', JStr ''response''),
                   (''result'', JObj [(''success'', JBool False),
                      (''error'', JObj [(''message'', field first_block ''text''),
                         (''suggestion'',
                            (case blocks of [] \<Rightarrow> JUndefined
                             | second_block # _ \<Rightarrow> opt_prop second_block ''text''))])])]],
            Returns ())\<close>
    by (simp add: handleInput_parsed [of parse input message, OF assms(1,2)]
        try_other [OF assms(2,3)] assms(4,5,6) legacy_envelope_error [OF assms(7,8,9)])
  have line: \<open>map JSON_stringify (fst (handleInput parse srv input)) =
              [''{"type":"response","result":{"success":false,"error":{"message":'' @ quote t @
               ''}}}'']\<close>
    if "blocks = []" "field first_block ''text'' = JStr t"
    using that by (simp add: out JSON_stringify_def quote_def json_escape_def)
  show ?thesis
    using out line callTool_one_block by blast
qed

text \<open>
  The legacy \<^verbatim>\<open>navigate\<close> command before a browser has been opened.
\<close>

theorem legacy_error_envelope_witness:
  \<open>handleInput sample_parse (playmcp_server closed_controller [])
     ''{"command":"navigate","arguments":{"url":"https://example.com"}}'' =
     ([JObj [(''type'', JStr ''response''),
             (''result'', JObj [(''success'', JBool False),
                (''error'', JObj [(''message'',
                     JStr (''Error: Failed to navigate'' @ [CHR 0x0A] @
                           ''Suggestion: Check if the URL is valid and accessible'')),
                   (''suggestion'', JUndefined)])])]],
      Returns ()) \<and>
   map JSON_stringify
     (fst (handleInput sample_parse (playmcp_server closed_controller [])
             ''{"command":"navigate","arguments":{"url":"https://example.com"}}'')) =
     [''{"type":"response","result":{"success":false,"error":{"message":"Error: Failed to navigate'' @
      [CHR 0x5C] @ ''nSuggestion: Check if the URL is valid and accessible"}}}'']\<close>
proof -
  have call:
    "callTool closed_controller
       \<lparr>params_name = JStr ''navigate'',
        params_arguments = JObj [(''url'', JStr ''https://example.com'')]\<rparr> =
     Returns (tool_error (JStr (''Error: Failed to navigate'' @ [CHR 0x0A] @
                           ''Suggestion: Check if the URL is valid and accessible'')))"
    by (simp add: callTool_def callTool_try_def case_navigate_def get_prop_def nullish_def
        is_string_def closed_controller_def callTool_catch_def thrown_prop_def)
  show ?thesis
    using call legacy_error_envelope
      [where parse = sample_parse and srv = "playmcp_server closed_controller []"
         and h = "callTool closed_controller"
         and response = \<open>tool_error (JStr (''Error: Failed to navigate'' @ [CHR 0x0A] @
                           ''Suggestion: Check if the URL is valid and accessible''))\<close>
         and first_block = \<open>JObj [(''type'', JStr ''text''),
              (''text'', JStr (''Error: Failed to navigate'' @ [CHR 0x0A] @
                           ''Suggestion: Check if the URL is valid and accessible''))]\<close>
         and blocks = \<open>[]\<close>
         and t = \<open>''Error: Failed to navigate'' @ [CHR 0x0A] @
                           ''Suggestion: Check if the URL is valid and accessible''\<close>,
       OF parse_command_navigate]
    by (simp add: nullish_def playmcp_server_def new_Server_def tool_error_def
        JSON_stringify_def quote_def json_escape_def)
qed

section \<open>Properties of the line framer\<close>

lemma includes_single: "js_includes s [c] \<longleftrightarrow> c \<in> set s"
  by (induction s) auto

lemma trim_empty_iff: "js_trim l = [] \<longleftrightarrow> whitespace_only l"
proof -
  have "js_trim l = [] \<longleftrightarrow> dropWhile js_whitespace l = []"
  proof
    assume "js_trim l = []"
    then have all: "\<forall>x \<in> set (dropWhile js_whitespace l). js_whitespace x"
      by (simp add: js_trim_def dropWhile_eq_Nil_conv)
    show "dropWhile js_whitespace l = []"
    proof (rule ccontr)
      assume ne: "dropWhile js_whitespace l \<noteq> []"
      then have "\<not> js_whitespace (hd (dropWhile js_whitespace l))"
        by (rule hd_dropWhile)
      moreover from ne have "hd (dropWhile js_whitespace l) \<in> set (dropWhile js_whitespace l)"
        by simp
      ultimately show False using all by blast
    qed
  next
    assume d: "dropWhile js_whitespace l = []"
    show "js_trim l = []" unfolding js_trim_def d by simp
  qed
  also have "\<dots> \<longleftrightarrow> whitespace_only l"
    by (simp add: whitespace_only_def list_all_iff)
  finally show ?thesis .
qed

lemma split_newline_not_Nil [simp]: "split_newline s \<noteq> []"
  by (induction s) (auto split: list.splits)

lemma split_newline_none: "CHR 0x0A \<notin> set s \<Longrightarrow> split_newline s = [s]"
  by (induction s) auto

lemma split_newline_first:
  "CHR 0x0A \<in> set s \<Longrightarrow>
   split_newline s = takeWhile (\<lambda>c. c \<noteq> CHR 0x0A) s #
                     split_newline (tl (dropWhile (\<lambda>c. c \<noteq> CHR 0x0A) s))"
proof (induction s)
  case Nil
  then show ?case by simp
next
  case (Cons c cs)
  show ?case
  proof (cases "c = CHR 0x0A")
    case True
    then show ?thesis by simp
  next
    case False
    with Cons.prems have "CHR 0x0A \<in> set cs" by simp
    with Cons.IH False show ?thesis by simp
  qed
qed

lemma split_newline_lines: "l \<in> set (split_newline s) \<Longrightarrow> CHR 0x0A \<notin> set l"
proof (induction s arbitrary: l)
  case Nil
  then show ?case by simp
next
  case (Cons c cs)
  then show ?case
    by (cases "split_newline cs") (auto split: if_splits)
qed

lemma split_newline_concat:
  "concat (map (\<lambda>l. l @ [CHR 0x0A]) (butlast (split_newline s))) @ last (split_newline s) = s"
proof (induction s)
  case Nil
  then show ?case by simp
next
  case (Cons c cs)
  then show ?case
    by (cases "split_newline cs"; cases "tl (split_newline cs)") (auto split: if_splits)
qed

lemma split_newline_append:
  "split_newline (x @ y) =
     butlast (split_newline x) @ split_newline (last (split_newline x) @ y)"
proof (induction x)
  case Nil
  then show ?case by simp
next
  case (Cons c cs)
  show ?case
  proof (cases "c = CHR 0x0A")
    case True
    with Cons show ?thesis by simp
  next
    case False
    obtain l ls where s: "split_newline cs = l # ls"
      by (cases "split_newline cs") simp_all
    show ?thesis
    proof (cases ls)
      case Nil
      with s False Cons show ?thesis by simp
    next
      case (Cons a as)
      with s False Cons.IH show ?thesis by simp
    qed
  qed
qed

lemma framer_spec_split:
  "framer_spec s =
     (last (split_newline s),
      filter (\<lambda>line. \<not> whitespace_only line) (butlast (split_newline s)))"
proof (induction s rule: framer_spec.induct)
  case (1 buffer)
  show ?case
  proof (cases "CHR 0x0A \<in> set buffer")
    case True
    note IH = 1 [OF True refl refl]
    show ?thesis
      using True
      by (subst framer_spec.simps) (simp add: IH split_newline_first [OF True] Let_def)
  next
    case False
    then show ?thesis
      by (subst framer_spec.simps) (simp add: split_newline_none)
  qed
qed

lemma on_data_split:
  "on_data buffer chunk =
     (last (split_newline (buffer @ chunk)),
      filter (\<lambda>line. \<not> whitespace_only line) (butlast (split_newline (buffer @ chunk))))"
proof (cases "CHR 0x0A \<in> set (buffer @ chunk)")
  case True
  then have inc: "js_includes (buffer @ chunk) [CHR 0x0A]"
    by (simp add: includes_single)
  show ?thesis
    by (simp add: on_data_def inc Let_def trim_empty_iff del: set_append)
next
  case False
  then have inc: "\<not> js_includes (buffer @ chunk) [CHR 0x0A]"
    by (simp add: includes_single)
  from False have "split_newline (buffer @ chunk) = [buffer @ chunk]"
    by (rule split_newline_none)
  then show ?thesis
    by (simp add: on_data_def inc Let_def)
qed

lemma connect_run_split:
  "CHR 0x0A \<notin> set buffer \<Longrightarrow>
   connect_run buffer chunks =
     (last (split_newline (buffer @ concat chunks)),
      filter (\<lambda>line. \<not> whitespace_only line)
        (butlast (split_newline (buffer @ concat chunks))))"
proof (induction chunks arbitrary: buffer)
  case Nil
  then show ?case by (simp add: split_newline_none)
next
  case (Cons chunk chunks)
  let ?b = "last (split_newline (buffer @ chunk))"
  have "?b \<in> set (split_newline (buffer @ chunk))"
    by simp
  then have "CHR 0x0A \<notin> set ?b"
    by (rule split_newline_lines)
  then have IH: "connect_run ?b chunks =
     (last (split_newline (?b @ concat chunks)),
      filter (\<lambda>line. \<not> whitespace_only line) (butlast (split_newline (?b @ concat chunks))))"
    by (rule Cons.IH)
  have app: "split_newline (buffer @ concat (chunk # chunks)) =
          butlast (split_newline (buffer @ chunk)) @ split_newline (?b @ concat chunks)"
    using split_newline_append [of "buffer @ chunk" "concat chunks"] by simp
  show ?case
    by (simp only: connect_run.simps on_data_split IH app prod.case)
       (simp add: butlast_append)
qed

text \<open>
  Claim C7. The callback appends the chunk to the buffer; the result is what the
  framer of the specification computes on the appended text. The text is cut at its
  newlines into complete lines (none of which contains a newline) and a last piece
  without newline, which is the new buffer; the lines handed to \<^verbatim>\<open>handleInput\<close>
  are, in order, the complete lines that are not empty or white space only. Feeding
  the chunks one by one hands over the same lines and leaves the same buffer as
  feeding their concatenation at once: the partial line survives across reads.
\<close>

theorem framer_lines:
  "on_data buffer chunk = framer_spec (buffer @ chunk) \<and>
   (\<exists>complete.
      buffer @ chunk =
        concat (map (\<lambda>line. line @ [CHR 0x0A]) complete) @ fst (on_data buffer chunk) \<and>
      CHR 0x0A \<notin> set (fst (on_data buffer chunk)) \<and>
      (\<forall>line \<in> set complete. CHR 0x0A \<notin> set line) \<and>
      snd (on_data buffer chunk) = filter (\<lambda>line. \<not> whitespace_only line) complete) \<and>
   (CHR 0x0A \<notin> set buffer \<longrightarrow>
      connect_run buffer chunks = on_data buffer (concat chunks))"
proof (intro conjI impI)
  show "on_data buffer chunk = framer_spec (buffer @ chunk)"
    by (simp add: on_data_split framer_spec_split)
next
  let ?ls = "split_newline (buffer @ chunk)"
  have "last ?ls \<in> set ?ls" by simp
  then have 1: "CHR 0x0A \<notin> set (last ?ls)" by (rule split_newline_lines)
  have 2: "\<forall>line \<in> set (butlast ?ls). CHR 0x0A \<notin> set line"
    by (auto dest: in_set_butlastD split_newline_lines)
  have 3: "buffer @ chunk = concat (map (\<lambda>line. line @ [CHR 0x0A]) (butlast ?ls)) @ last ?ls"
    by (rule split_newline_concat [symmetric])
  show "\<exists>complete.
      buffer @ chunk =
        concat (map (\<lambda>line. line @ [CHR 0x0A]) complete) @ fst (on_data buffer chunk) \<and>
      CHR 0x0A \<notin> set (fst (on_data buffer chunk)) \<and>
      (\<forall>line \<in> set complete. CHR 0x0A \<notin> set line) \<and>
      snd (on_data buffer chunk) = filter (\<lambda>line. \<not> whitespace_only line) complete"
    using 1 2 3 by (intro exI [of _ "butlast ?ls"]) (simp add: on_data_split)
next
  assume "CHR 0x0A \<notin> set buffer"
  then show "connect_run buffer chunks = on_data buffer (concat chunks)"
    by (simp add: connect_run_split on_data_split)
qed

theorem framer_lines_witness:
  \<open>framer_spec (''{"a'' @ ''":1}\<newline>  \<newline>\<newline>{"b":2}\<newline>{"c'') =
     (''{"c'', [''{"a":1}'', ''{"b":2}'']) \<and>
   connect_run [] [''{"a'', ''":1}\<newline>  \<newline>'', ''\<newline>{"b":2}\<newline>{"c''] =
     (''{"c'', [''{"a":1}'', ''{"b":2}''])\<close>
  using framer_lines [of \<open>''{"a''\<close> \<open>''":1}\<newline>  \<newline>\<newline>{"b":2}\<newline>{"c''\<close> \<open>[]\<close>]
        framer_lines [of \<open>[]\<close> \<open>[]\<close>
                         \<open>[''{"a'', ''":1}\<newline>  \<newline>'', ''\<newline>{"b":2}\<newline>{"c'']\<close>]
  by (simp add: on_data_def Let_def js_trim_def js_whitespace_def)

end
